theory Spec2Isabelle
  imports Main "HOL-Library.Word" "HOL-Library.Sublist" "HOL-Library.Product_Lexorder"
begin

unbundle bit_operations_syntax

section \<open>Conventions of the embedding\<close>

text \<open>
  The bootstrapper consists of the platform abstraction layer \<^verbatim>\<open>pal/pal.cpp\<close> and the
  runtime host \<^verbatim>\<open>coreclr.cpp\<close>.  A C string, narrow or wide, is the list of its
  characters before the terminator; a pointer that the code tests against \<^verbatim>\<open>nullptr\<close>
  is a \<open>string option\<close>.  A PAL function returning \<^verbatim>\<open>BOOL\<close> and writing an
  out-parameter is a function into \<open>option\<close>: \<open>None\<close> is a \<^verbatim>\<open>FALSE\<close> return (the
  out-parameter is left untouched), \<open>Some v\<close> is a \<^verbatim>\<open>TRUE\<close> return that stored \<open>v\<close>.
  \<^verbatim>\<open>size_t\<close> has 64 bits.

  Two things the C++ can do besides returning are kept as values of their own, on the
  left of a sum type.
\<close>

datatype anomaly =
  Undefined_Behaviour
    \<comment> \<open>an access outside the object a pointer belongs to, or \<^verbatim>\<open>memcpy\<close> on overlapping regions\<close>
| Bad_Function_Call
    \<comment> \<open>\<^verbatim>\<open>std::bad_function_call\<close>, thrown by calling an empty \<^verbatim>\<open>std::function\<close>\<close>

text \<open>The two build targets of the PAL (\<^verbatim>\<open>PLATFORM_WINDOWS\<close>, \<^verbatim>\<open>PLATFORM_LINUX\<close>).\<close>

datatype platform = PLATFORM_WINDOWS | PLATFORM_LINUX

type_synonym size_t = "64 word"

type_synonym environment = "string \<Rightarrow> string option"

section \<open>String helpers of the PAL\<close>

text \<open>\<^verbatim>\<open>std::toupper\<close> in the "C" locale: the 26 lower-case letters move, nothing else does.\<close>

definition toupper :: "char \<Rightarrow> char" where
  "toupper c =
     (let n = (of_char c :: nat) in if 97 \<le> n \<and> n \<le> 122 then char_of (n - 32) else c)"

text \<open>
  \<^verbatim>\<open>pal_str_iequals\<close>: both sizes equal and \<^verbatim>\<open>std::equal\<close> under the predicate
  \<^verbatim>\<open>c1 == c2 || toupper(c1) == toupper(c2)\<close>.  The result is \<^verbatim>\<open>TRUE\<close> for equal strings.
\<close>

definition pal_str_iequals :: "string \<Rightarrow> string \<Rightarrow> bool" where
  "pal_str_iequals lhs rhs \<longleftrightarrow>
     length lhs = length rhs \<and>
     list_all2 (\<lambda>c1 c2. c1 = c2 \<or> toupper c1 = toupper c2) lhs rhs"

text \<open>
  \<^verbatim>\<open>pal_str_endswith\<close>.  \<^verbatim>\<open>diff\<close> is a \<^verbatim>\<open>size_t\<close>, so the subtraction wraps around when
  \<^verbatim>\<open>src\<close> is the shorter string and the guard \<^verbatim>\<open>diff > 0\<close> passes.  Inside the string
  (\<^verbatim>\<open>diff <= strlen(src)\<close>, the terminator included) \<^verbatim>\<open>strcmp\<close> compares the rest of
  \<^verbatim>\<open>src\<close> from index \<^verbatim>\<open>diff\<close> with \<^verbatim>\<open>str\<close>.  After a wrap-around the address
  \<^verbatim>\<open>&src[diff]\<close>, computed modulo \<open>2 ^ 64\<close>, lies \<open>2 ^ 64 - diff\<close> characters in front of
  \<^verbatim>\<open>src\<close>.  \<^verbatim>\<open>src\<close> need not be the first element of its array (a file name inside a
  path, \<^verbatim>\<open>d_name\<close> inside a \<^verbatim>\<open>struct dirent\<close>): \<open>in_front\<close> are the bytes of that object
  in front of \<^verbatim>\<open>src[0]\<close>, none when \<^verbatim>\<open>src\<close> starts it.  A read that stays inside the
  object sees these bytes, and \<^verbatim>\<open>strcmp\<close> compares the C string that starts there, which
  ends at the first NUL, with \<^verbatim>\<open>str\<close>; a read in front of the object is undefined.
\<close>

definition c_string_at :: "string \<Rightarrow> string" where
  "c_string_at bytes = takeWhile (\<lambda>c. c \<noteq> CHR 0x00) bytes"

fun pal_str_endswith :: "string \<Rightarrow> string option \<Rightarrow> string option \<Rightarrow> anomaly + bool" where
  "pal_str_endswith in_front None _ = Inr False"
| "pal_str_endswith in_front _ None = Inr False"
| "pal_str_endswith in_front (Some src) (Some str) =
     (let diff = (word_of_nat (length src) - word_of_nat (length str) :: size_t) in
      if 0 < diff then
        (if unat diff \<le> length src then Inr (drop (unat diff) src = str)
         else if 2 ^ 64 - unat diff \<le> length in_front then
           Inr (c_string_at (drop (length in_front - (2 ^ 64 - unat diff)) in_front @ src)
                  = str)
         else Inl Undefined_Behaviour)
      else Inr False)"

section \<open>Environment variables\<close>

text \<open>
  \<^verbatim>\<open>pal_env_get_variable\<close>: the process environment is a partial map from names to
  values (\<^verbatim>\<open>_wdupenv_s\<close> on Windows, \<^verbatim>\<open>std::getenv\<close> elsewhere); an unset variable and a
  null name give \<^verbatim>\<open>FALSE\<close>.
\<close>

fun pal_env_get_variable :: "environment \<Rightarrow> string option \<Rightarrow> string option" where
  "pal_env_get_variable env None = None"
| "pal_env_get_variable env (Some environment_variable_in) = env environment_variable_in"

text \<open>
  \<^verbatim>\<open>pal_env_get_variable_bool\<close>.  The stored value is
  \<^verbatim>\<open>pal_str_iequals(v, "1") == 0 || pal_str_iequals(v, "true") == 0 ? TRUE : FALSE\<close>:
  each comparison result is tested against \<^verbatim>\<open>0\<close>, that is, for being \<^verbatim>\<open>FALSE\<close>.
\<close>

definition pal_env_get_variable_bool :: "environment \<Rightarrow> string option \<Rightarrow> bool option" where
  "pal_env_get_variable_bool env environment_variable_in =
     (case pal_env_get_variable env environment_variable_in of
        None \<Rightarrow> None
      | Some environment_variable_value_out \<Rightarrow>
          Some (pal_str_iequals environment_variable_value_out ''1'' = False
                \<or> pal_str_iequals environment_variable_value_out ''true'' = False))"

subsection \<open>Expansion of variable references\<close>

text \<open>
  The two regular expressions of \<^verbatim>\<open>pal_env_expand_str\<close>.  On Windows a reference is
  \<^verbatim>\<open>%([0-9A-Za-z\\/\(\)]*)%\<close>: a percent sign, any number of letters, digits,
  backslashes, slashes and parentheses, and a percent sign.  Elsewhere it is
  \<^verbatim>\<open>\$\{([^}]+)\}\<close>: a dollar sign and an opening brace, at least one character other
  than a closing brace, and a closing brace.  Neither character class contains the
  character that ends the reference, so the greedy repetition either stops in front of
  it or the match fails at this position.
\<close>

definition is_reference_char :: "char \<Rightarrow> bool" where
  "is_reference_char c =
     (let n = (of_char c :: nat) in
        (48 \<le> n \<and> n \<le> 57) \<or> (65 \<le> n \<and> n \<le> 90) \<or> (97 \<le> n \<and> n \<le> 122)
        \<or> c = CHR 0x5C \<or> c = CHR ''/'' \<or> c = CHR ''('' \<or> c = CHR '')'')"

text \<open>
  A match of the expression at the very start of the string: the captured name
  (\<^verbatim>\<open>match[1]\<close>) and what follows the whole match.
\<close>

fun match_here :: "platform \<Rightarrow> string \<Rightarrow> (string \<times> string) option" where
  "match_here PLATFORM_WINDOWS (c # rest) =
     (if c = CHR ''%'' then
        (case dropWhile is_reference_char rest of
           [] \<Rightarrow> None
         | d # after \<Rightarrow>
             if d = CHR ''%'' then Some (takeWhile is_reference_char rest, after) else None)
      else None)"
| "match_here PLATFORM_LINUX (c1 # c2 # rest) =
     (if c1 = CHR ''$'' \<and> c2 = CHR ''{'' then
        (case dropWhile (\<lambda>c. c \<noteq> CHR ''}'') rest of
           [] \<Rightarrow> None
         | d # after \<Rightarrow>
             if takeWhile (\<lambda>c. c \<noteq> CHR ''}'') rest \<noteq> []
             then Some (takeWhile (\<lambda>c. c \<noteq> CHR ''}'') rest, after) else None)
      else None)"
| "match_here _ _ = None"

text \<open>
  \<^verbatim>\<open>std::regex_search\<close>: the leftmost match, as the text before the match, the
  captured name, and the text after the match.
\<close>

fun regex_search :: "platform \<Rightarrow> string \<Rightarrow> (string \<times> string \<times> string) option" where
  "regex_search pf [] = None"
| "regex_search pf (c # cs) =
     (case match_here pf (c # cs) of
        Some (name, after) \<Rightarrow> Some ([], name, after)
      | None \<Rightarrow>
          map_option (\<lambda>(before, name, after). (c # before, name, after))
            (regex_search pf cs))"

text \<open>
  The \<^verbatim>\<open>while (std::regex_search(...))\<close> loop.  Nothing bounds the number of its
  iterations, so it is a partial function: \<open>None\<close> means that the loop never exits.
  A failed lookup takes the \<^verbatim>\<open>continue\<close> with the string unchanged; a successful one
  replaces the whole match by the value and counts it.  The counter is an \<^verbatim>\<open>int\<close> in the
  source; it only ever grows by one per substitution and is compared with zero.
\<close>

partial_function (option) expand_loop ::
  "platform \<Rightarrow> environment \<Rightarrow> string \<Rightarrow> nat \<Rightarrow> (string \<times> nat) option" where
  "expand_loop pf env environment_in_str replacements =
     (case regex_search pf environment_in_str of
        None \<Rightarrow> Some (environment_in_str, replacements)
      | Some m \<Rightarrow>
          (case pal_env_get_variable env (Some (fst (snd m))) of
             None \<Rightarrow> expand_loop pf env environment_in_str replacements
           | Some environment_variable_value_s \<Rightarrow>
               expand_loop pf env (fst m @ environment_variable_value_s @ snd (snd m))
                 (replacements + 1)))"

declare expand_loop.simps [code]

text \<open>
  \<^verbatim>\<open>pal_env_expand_str\<close>.  The outer \<open>option\<close> is that of the loop (\<open>None\<close>: the call
  never returns); the inner one is the \<^verbatim>\<open>BOOL\<close> result with the expanded string.
\<close>

fun pal_env_expand_str :: "platform \<Rightarrow> environment \<Rightarrow> string option \<Rightarrow> string option option" where
  "pal_env_expand_str pf env None = Some None"
| "pal_env_expand_str pf env (Some environment_in) =
     (case expand_loop pf env environment_in 0 of
        None \<Rightarrow> None
      | Some (environment_in_str, replacements) \<Rightarrow>
          if replacements \<le> 0 then Some None else Some (Some environment_in_str))"

section \<open>Paths\<close>

text \<open>
  The C string functions used on paths, on lists: \<^verbatim>\<open>strstr\<close> and \<^verbatim>\<open>strrchr\<close> return the
  index of the first occurrence of a substring and of the last occurrence of a character
  (\<open>None\<close> for the null pointer).
\<close>

fun strstr :: "string \<Rightarrow> string \<Rightarrow> nat option" where
  "strstr [] needle = (if needle = [] then Some 0 else None)"
| "strstr (c # cs) needle =
     (if prefix needle (c # cs) then Some 0 else map_option Suc (strstr cs needle))"

fun strrchr :: "string \<Rightarrow> char \<Rightarrow> nat option" where
  "strrchr [] ch = None"
| "strrchr (c # cs) ch =
     (case strrchr cs ch of
        Some i \<Rightarrow> Some (Suc i)
      | None \<Rightarrow> if c = ch then Some 0 else None)"

text \<open>
  \<^verbatim>\<open>pal_fs_get_directory_name\<close>: what follows the last separator.  The separator is the
  macro \<^verbatim>\<open>PAL_DIRECTORY_SEPARATOR_C\<close> of the PAL header, a parameter here.
\<close>

fun pal_fs_get_directory_name :: "char \<Rightarrow> string option \<Rightarrow> string option" where
  "pal_fs_get_directory_name separator None = None"
| "pal_fs_get_directory_name separator (Some path_in) =
     (case strrchr path_in separator of
        None \<Rightarrow> None
      | Some directory_name_start_pos \<Rightarrow> Some (drop (directory_name_start_pos + 1) path_in))"

text \<open>\<^verbatim>\<open>pal_fs_file_exists\<close>: \<^verbatim>\<open>PathFileExists\<close> or \<^verbatim>\<open>access\<close> decides; only a null path fails.\<close>

fun pal_fs_file_exists :: "(string \<Rightarrow> bool) \<Rightarrow> string option \<Rightarrow> bool option" where
  "pal_fs_file_exists exists None = None"
| "pal_fs_file_exists exists (Some file_path_in) = Some (exists file_path_in)"

subsection \<open>Combining and normalising paths (POSIX branch)\<close>

text \<open>
  \<^verbatim>\<open>memcpy\<close> is only defined for regions that do not overlap; \<open>dest\<close> and \<open>src\<close> are
  indices into the path buffer, \<open>n\<close> the number of bytes copied.
\<close>

definition memcpy_overlaps :: "nat \<Rightarrow> nat \<Rightarrow> nat \<Rightarrow> bool" where
  "memcpy_overlaps dest src n \<longleftrightarrow> dest < src + n \<and> src < dest + n"

text \<open>
  The first loop of \<^verbatim>\<open>path_combine_recursive\<close>, "resolve parent dir".  \<open>str\<close> is the
  index of the first \<^verbatim>\<open>/../\<close>; the buffer is cut there, and without a slash in what is
  left the lambda returns 1 (\<open>Inr None\<close>).  Otherwise the text after the \<^verbatim>\<open>/../\<close>,
  terminator included, is copied to the position after the last slash.
\<close>

function resolve_parent_dir :: "string \<Rightarrow> anomaly + string option" where
  "resolve_parent_dir path =
     (case strstr path ''/../'' of
        None \<Rightarrow> Inr (Some path)
      | Some str \<Rightarrow>
          (case strrchr (take str path) CHR ''/'' of
             None \<Rightarrow> Inr None
           | Some slash \<Rightarrow>
               let parent_dir = slash + 1;
                   current_dir = str + 4
               in if memcpy_overlaps parent_dir current_dir (length (drop current_dir path) + 1)
                  then Inl Undefined_Behaviour
                  else resolve_parent_dir (take parent_dir path @ drop current_dir path)))"
  by pat_completeness auto
termination
proof (relation "measure length")
  show "wf (measure length)"
    by simp
next
  fix path :: string and str slash parent_dir current_dir
  assume s: "strstr path ''/../'' = Some str"
    and r: "strrchr (take str path) CHR ''/'' = Some slash"
    and p: "parent_dir = slash + 1" and c: "current_dir = str + 4"
  have a: "i + length n \<le> length s" if "strstr s n = Some i" for s n :: string and i
    using that
  proof (induction s arbitrary: i)
    case Nil
    then show ?case by (simp split: if_splits)
  next
    case (Cons x xs)
    then show ?case
      by (auto split: if_splits dest: prefix_length_le)
  qed
  have b: "i < length s" if "strrchr s ch = Some i" for s ch i
    using that
    by (induction s arbitrary: i) (auto split: option.splits if_splits)
  from a [OF s] have "str + 4 \<le> length path"
    by simp
  moreover from b [OF r] have "slash < str"
    by simp
  ultimately show "(take parent_dir path @ drop current_dir path, path) \<in> measure length"
    using p c by simp
qed

text \<open>The second loop, "resolve current dir": \<^verbatim>\<open>/./\<close> loses its last two characters.\<close>

function resolve_current_dir :: "string \<Rightarrow> anomaly + string" where
  "resolve_current_dir path =
     (case strstr path ''/./'' of
        None \<Rightarrow> Inr path
      | Some str \<Rightarrow>
          if memcpy_overlaps (str + 1) (str + 3) (length (drop (str + 3) path) + 1)
          then Inl Undefined_Behaviour
          else resolve_current_dir (take (str + 1) path @ drop (str + 3) path))"
  by pat_completeness auto
termination
proof (relation "measure length")
  show "wf (measure length)"
    by simp
next
  fix path :: string and str
  assume s: "strstr path ''/./'' = Some str"
  have a: "i + length n \<le> length s" if "strstr s n = Some i" for s n :: string and i
    using that
  proof (induction s arbitrary: i)
    case Nil
    then show ?case by (simp split: if_splits)
  next
    case (Cons x xs)
    then show ?case
      by (auto split: if_splits dest: prefix_length_le)
  qed
  from a [OF s] show "(take (str + 1) path @ drop (str + 3) path, path) \<in> measure length"
    by simp
qed

text \<open>
  The tail of \<^verbatim>\<open>path_combine_recursive\<close>.  \<^verbatim>\<open>tail\<close> points at the last character;
  \<^verbatim>\<open>strcmp(tail - 1, "/.")\<close> and \<^verbatim>\<open>strcmp(tail - 2, "/..")\<close> start before the buffer when
  the path has fewer than two or three characters.  In the last case the code appends a
  slash (the buffer holds \<open>max_path\<close> bytes) and calls \<^verbatim>\<open>path_combine_recursive\<close>.
  That name is the lambda's capture \<^verbatim>\<open>[path_combine_recursive]\<close>: a copy of the
  \<^verbatim>\<open>std::function\<close> taken when the lambda expression is evaluated, before the
  assignment, when the object is still empty.  Calling it throws.
\<close>

definition remove_tail :: "nat \<Rightarrow> string \<Rightarrow> anomaly + string" where
  "remove_tail max_path path =
     (let n = length path in
      if n = 0 then Inl Undefined_Behaviour
      else if last path = CHR ''/'' then Inr (butlast path)
      else if n < 2 then Inl Undefined_Behaviour
      else if drop (n - 2) path = ''/.'' then Inr (take (n - 2) path)
      else if n < 3 then Inl Undefined_Behaviour
      else if drop (n - 3) path = ''/..'' then
        (if max_path < n + 2 then Inl Undefined_Behaviour else Inl Bad_Function_Call)
      else Inr path)"

text \<open>
  The lambda \<^verbatim>\<open>path_combine_recursive\<close>: \<open>Inr (Some p)\<close> is the return value 0 with the
  buffer holding \<open>p\<close>, \<open>Inr None\<close> the return value 1.
\<close>

definition path_combine_recursive :: "nat \<Rightarrow> string \<Rightarrow> anomaly + string option" where
  "path_combine_recursive max_path path =
     (if length path = 0 then Inr (Some path)
      else
        (case resolve_parent_dir path of
           Inl a \<Rightarrow> Inl a
         | Inr None \<Rightarrow> Inr None
         | Inr (Some path) \<Rightarrow>
             (case resolve_current_dir path of
                Inl a \<Rightarrow> Inl a
              | Inr path \<Rightarrow> map_sum id Some (remove_tail max_path path))))"

text \<open>
  \<^verbatim>\<open>pal_fs_path_combine\<close>, POSIX branch, with \<open>max_path\<close> for the macro
  \<^verbatim>\<open>PAL_MAX_PATH\<close> of the PAL header.  \<^verbatim>\<open>strcpy\<close> and \<^verbatim>\<open>strcat\<close> write the string and its
  terminator into \<^verbatim>\<open>buffer[PAL_MAX_PATH]\<close>; \<^verbatim>\<open>path1[strlen(path1) - 1]\<close> reads in front
  of an empty \<^verbatim>\<open>path1\<close>.  On Windows the function is \<^verbatim>\<open>PathCchCombine\<close>.
\<close>

fun pal_fs_path_combine :: "nat \<Rightarrow> string option \<Rightarrow> string option \<Rightarrow> anomaly + string option" where
  "pal_fs_path_combine max_path None _ = Inr None"
| "pal_fs_path_combine max_path _ None = Inr None"
| "pal_fs_path_combine max_path (Some path1) (Some path2) =
     (if path2 \<noteq> [] \<and> hd path2 = CHR ''/'' then
        (if max_path < length path2 + 1 then Inl Undefined_Behaviour
         else path_combine_recursive max_path path2)
      else if max_path < length path1 + 1 then Inl Undefined_Behaviour
      else if path1 = [] then Inl Undefined_Behaviour
      else
        (let buffer = (if last path1 \<noteq> CHR ''/'' then path1 @ ''/'' else path1) @ path2 in
         if max_path < length buffer + 1 then Inl Undefined_Behaviour
         else path_combine_recursive max_path buffer))"

text \<open>
  A path on which the normalisation has nothing to do: it is not empty, contains neither
  \<^verbatim>\<open>/../\<close> nor \<^verbatim>\<open>/./\<close>, and ends neither in a slash nor in \<^verbatim>\<open>/.\<close> or \<^verbatim>\<open>/..\<close>.
\<close>

definition normalized :: "string \<Rightarrow> bool" where
  "normalized p \<longleftrightarrow>
     p \<noteq> [] \<and> strstr p ''/../'' = None \<and> strstr p ''/./'' = None
     \<and> last p \<noteq> CHR ''/'' \<and> \<not> suffix ''/.'' p \<and> \<not> suffix ''/..'' p"

section \<open>Directory listing (POSIX branch)\<close>

text \<open>
  What \<^verbatim>\<open>readdir\<close> yields: the entry's name and its \<^verbatim>\<open>d_type\<close>, and, since
  \<^verbatim>\<open>d_name\<close> is the last member of \<^verbatim>\<open>struct dirent\<close>, the bytes of the structure in
  front of the name (its other members, as the C library lays them out).  The directory
  stream is the list of its entries in enumeration order; \<open>None\<close> stands for a failed
  \<^verbatim>\<open>opendir\<close>.  \<^verbatim>\<open>stat\<close> on a path is \<open>None\<close> when the call fails and otherwise tells
  whether the target is a regular file.
\<close>

datatype d_type = DT_DIR | DT_REG | DT_LNK | DT_UNKNOWN | DT_OTHER

record dirent =
  d_in_front_of_name :: string
  d_name :: string
  d_type :: d_type

text \<open>
  One iteration of the \<^verbatim>\<open>readdir\<close> loop of \<^verbatim>\<open>pal_fs_list_impl\<close> up to the callback:
  \<open>Inr None\<close> is a \<^verbatim>\<open>continue\<close> (also taken when \<^verbatim>\<open>absolute_path_s\<close> stayed empty),
  \<open>Inr (Some p)\<close> the absolute path built for the entry.  \<^verbatim>\<open>type\<close> is 0 for
  directories and 1 for files.
\<close>

definition list_entry_filter ::
  "string option \<Rightarrow> dirent \<Rightarrow> (anomaly + bool)" where
  "list_entry_filter filter_extension_in entry =
     (case filter_extension_in of
        None \<Rightarrow> Inr True
      | Some ext \<Rightarrow>
          pal_str_endswith (d_in_front_of_name entry) (Some (d_name entry)) (Some ext))"

definition list_entry ::
  "string \<Rightarrow> string option \<Rightarrow> (string \<Rightarrow> bool option) \<Rightarrow> int \<Rightarrow> dirent
     \<Rightarrow> anomaly + string option" where
  "list_entry path_in filter_extension_in stat type entry =
     (let absolute_path_s = path_in @ ''/'' @ d_name entry in
      if type = 0 then
        (if d_type entry \<noteq> DT_DIR then Inr None
         else if pal_str_iequals (d_name entry) ''.'' \<or> pal_str_iequals (d_name entry) ''..''
           then Inr None
         else Inr (Some absolute_path_s))
      else if type = 1 then
        (case d_type entry of
           DT_REG \<Rightarrow>
             (case list_entry_filter filter_extension_in entry of
                Inl a \<Rightarrow> Inl a
              | Inr False \<Rightarrow> Inr None
              | Inr True \<Rightarrow> Inr (Some absolute_path_s))
         | DT_DIR \<Rightarrow> Inr None
         | DT_OTHER \<Rightarrow> Inr None
         | _ \<Rightarrow>
             (case list_entry_filter filter_extension_in entry of
                Inl a \<Rightarrow> Inl a
              | Inr False \<Rightarrow> Inr None
              | Inr True \<Rightarrow>
                  (case stat absolute_path_s of
                     None \<Rightarrow> Inr None
                   | Some is_regular \<Rightarrow>
                       if is_regular then Inr (Some absolute_path_s) else Inr None)))
      else Inr None)"

fun list_loop ::
  "string \<Rightarrow> (string \<Rightarrow> bool) option \<Rightarrow> string option \<Rightarrow> (string \<Rightarrow> bool option) \<Rightarrow> int
     \<Rightarrow> dirent list \<Rightarrow> string list \<Rightarrow> anomaly + string list" where
  "list_loop path_in filter_callback_in filter_extension_in stat type [] paths = Inr paths"
| "list_loop path_in filter_callback_in filter_extension_in stat type (entry # rest) paths =
     (case list_entry path_in filter_extension_in stat type entry of
        Inl a \<Rightarrow> Inl a
      | Inr None \<Rightarrow>
          list_loop path_in filter_callback_in filter_extension_in stat type rest paths
      | Inr (Some absolute_path_s) \<Rightarrow>
          (case filter_callback_in of
             None \<Rightarrow>
               list_loop path_in filter_callback_in filter_extension_in stat type rest
                 (paths @ [absolute_path_s])
           | Some filter_callback_fn \<Rightarrow>
               if \<not> filter_callback_fn absolute_path_s
               then list_loop path_in filter_callback_in filter_extension_in stat type rest paths
               else list_loop path_in filter_callback_in filter_extension_in stat type rest
                      (paths @ [absolute_path_s])))"

text \<open>
  \<^verbatim>\<open>pal_fs_list_impl\<close>, POSIX branch: a null path and a failed \<^verbatim>\<open>opendir\<close> return
  \<^verbatim>\<open>FALSE\<close>, otherwise the collected paths are handed out.
\<close>

fun pal_fs_list_impl ::
  "dirent list option \<Rightarrow> (string \<Rightarrow> bool option) \<Rightarrow> string option
     \<Rightarrow> (string \<Rightarrow> bool) option \<Rightarrow> string option \<Rightarrow> int \<Rightarrow> anomaly + string list option" where
  "pal_fs_list_impl dir stat None filter_callback_in filter_extension_in type = Inr None"
| "pal_fs_list_impl None stat (Some path_in) filter_callback_in filter_extension_in type =
     Inr None"
| "pal_fs_list_impl (Some entries) stat (Some path_in) filter_callback_in filter_extension_in
       type =
     map_sum id Some
       (list_loop path_in filter_callback_in filter_extension_in stat type entries [])"

definition pal_fs_list_files ::
  "dirent list option \<Rightarrow> (string \<Rightarrow> bool option) \<Rightarrow> string option
     \<Rightarrow> (string \<Rightarrow> bool) option \<Rightarrow> string option \<Rightarrow> anomaly + string list option" where
  "pal_fs_list_files dir stat path_in filter_callback_in filter_extension_in =
     pal_fs_list_impl dir stat path_in filter_callback_in filter_extension_in 1"

section \<open>Startup flags of the runtime host\<close>

text \<open>
  The names of the two toggles and the installed-runtimes root, as \<^verbatim>\<open>coreclr.cpp\<close>
  declares them.
\<close>

definition server_gc_environment_var :: string where
  "server_gc_environment_var = ''CORECLR_SERVER_GC''"

definition concurrent_gc_environment_var :: string where
  "concurrent_gc_environment_var = ''CORECLR_CONCURRENT_GC''"

definition core_clr_dll :: string where
  "core_clr_dll = ''coreclr.dll''"

definition core_clr_program_files_directory_path :: string where
  "core_clr_program_files_directory_path =
     ''%programfiles%'' @ [CHR 0x5C] @ ''dotnet'' @ [CHR 0x5C] @ ''shared'' @ [CHR 0x5C]
       @ ''microsoft.netcore.app''"

text \<open>
  \<^verbatim>\<open>STARTUP_FLAGS\<close> is an enumeration of the runtime's hosting header, which is not part
  of the repository; the four enumerators that \<^verbatim>\<open>create_clr_startup_flags\<close> uses are
  parameters.  \<open>mscoree_startup_flags\<close> are the values of the CoreCLR hosting header
  \<^verbatim>\<open>mscoree.h\<close>.
\<close>

record startup_flags =
  STARTUP_CONCURRENT_GC :: "32 word"
  STARTUP_LOADER_OPTIMIZATION_SINGLE_DOMAIN :: "32 word"
  STARTUP_SERVER_GC :: "32 word"
  STARTUP_SINGLE_APPDOMAIN :: "32 word"

definition mscoree_startup_flags :: startup_flags where
  "mscoree_startup_flags =
     \<lparr>STARTUP_CONCURRENT_GC = 0x1,
      STARTUP_LOADER_OPTIMIZATION_SINGLE_DOMAIN = 0x2,
      STARTUP_SERVER_GC = 0x1000,
      STARTUP_SINGLE_APPDOMAIN = 0x800000\<rparr>"

text \<open>
  The lambda \<^verbatim>\<open>read_flag_for_environment_variable\<close>; the flags it captures by reference
  are passed in and returned.
\<close>

definition read_flag_for_environment_variable ::
  "environment \<Rightarrow> 32 word \<Rightarrow> 32 word \<Rightarrow> string \<Rightarrow> 32 word" where
  "read_flag_for_environment_variable env initial_startup_flags startup_flag
       environment_variable =
     (case pal_env_get_variable_bool env (Some environment_variable) of
        None \<Rightarrow> initial_startup_flags
      | Some is_flag_enabled \<Rightarrow>
          if is_flag_enabled then initial_startup_flags OR startup_flag
          else initial_startup_flags AND NOT startup_flag)"

definition baseline_startup_flags :: "startup_flags \<Rightarrow> 32 word" where
  "baseline_startup_flags F =
     STARTUP_LOADER_OPTIMIZATION_SINGLE_DOMAIN F OR STARTUP_SINGLE_APPDOMAIN F
       OR STARTUP_CONCURRENT_GC F"

definition create_clr_startup_flags :: "startup_flags \<Rightarrow> environment \<Rightarrow> 32 word" where
  "create_clr_startup_flags F env =
     (let initial_startup_flags = baseline_startup_flags F;
          initial_startup_flags =
            read_flag_for_environment_variable env initial_startup_flags
              (STARTUP_SERVER_GC F) server_gc_environment_var;
          initial_startup_flags =
            read_flag_for_environment_variable env initial_startup_flags
              (STARTUP_CONCURRENT_GC F) concurrent_gc_environment_var
      in initial_startup_flags)"

section \<open>The system underneath the runtime host\<close>

text \<open>
  \<^verbatim>\<open>coreclr.cpp\<close> builds for Windows only, where the PAL functions it calls end in calls
  of the operating system (\<^verbatim>\<open>FindFirstFile\<close>, \<^verbatim>\<open>PathCchCombine\<close>, \<^verbatim>\<open>PathFileExists\<close>,
  \<^verbatim>\<open>LoadLibraryEx\<close>, \<^verbatim>\<open>GetModuleHandleExW\<close>).  Their outcomes are the fields of a record:
  \<^item> \<open>os_list_directories root\<close> and \<open>os_list_files root pattern\<close>: the paths that
    \<^verbatim>\<open>pal_fs_list_directories\<close> and \<^verbatim>\<open>pal_fs_list_files\<close> hand out, in enumeration order,
    \<open>None\<close> for a \<^verbatim>\<open>FALSE\<close> return;
  \<^item> \<open>os_path_combine\<close>: the result of \<^verbatim>\<open>pal_fs_path_combine\<close>;
  \<^item> \<open>os_file_exists\<close>: whether a file exists at the path;
  \<^item> \<open>os_directory_name_full_path\<close>: the result of
    \<^verbatim>\<open>pal_fs_get_directory_name_full_path\<close>, which \<^verbatim>\<open>pal.cpp\<close> does not define;
  \<^item> \<open>os_load_library\<close> and \<open>os_pin_module\<close>: the module handle of \<^verbatim>\<open>LoadLibraryEx\<close>
    (\<open>None\<close> for a null handle) and whether pinning the module succeeds;
  \<^item> \<open>os_environment\<close>: the process environment;
  \<^item> \<open>directory_separator\<close>: the macro \<^verbatim>\<open>PAL_DIRECTORY_SEPARATOR_C\<close>.

  The version class \<^verbatim>\<open>version::Semver200_version\<close> is vendored code outside the sources
  at hand.  A version is a value of a linearly ordered type \<open>'v\<close>, its \<^verbatim>\<open>operator<\<close> the
  order of that type; \<open>semver_parse\<close> is the constructor from a string (\<open>None\<close> when it
  throws \<^verbatim>\<open>version::Parse_error\<close>) and \<open>semver_default\<close> the default-constructed version.
\<close>

record ('v, 'h) system =
  os_list_directories :: "string \<Rightarrow> string list option"
  os_list_files :: "string \<Rightarrow> string \<Rightarrow> string list option"
  os_path_combine :: "string \<Rightarrow> string \<Rightarrow> string option"
  os_file_exists :: "string \<Rightarrow> bool"
  os_directory_name_full_path :: "string \<Rightarrow> string option"
  os_load_library :: "string \<Rightarrow> 'h option"
  os_pin_module :: "string \<Rightarrow> bool"
  os_environment :: environment
  directory_separator :: char
  semver_parse :: "string \<Rightarrow> 'v option"
  semver_default :: 'v

text \<open>The classes \<^verbatim>\<open>core_clr_directory\<close> and \<^verbatim>\<open>core_clr_instance\<close>, by what they are built from.\<close>

record 'v core_clr_directory =
  root_path :: string
  dll_path :: string
  version :: 'v

record ('v, 'h) core_clr_instance =
  instance_ptr :: 'h
  directory :: "'v core_clr_directory"

section \<open>Locating the installed runtimes\<close>

text \<open>
  One iteration of the loop of \<^verbatim>\<open>get_core_directories_from_path\<close>: the entry is passed
  over (every \<^verbatim>\<open>continue\<close>), its name fails to parse (the \<^verbatim>\<open>catch\<close> block, which writes
  a line to \<^verbatim>\<open>std::wcerr\<close>), or it is a candidate.
\<close>

datatype 'v scan_step = Skipped | Parse_Failed | Candidate "'v core_clr_directory"

definition scan_core_clr_path ::
  "('v :: linorder, 'h) system \<Rightarrow> 'v \<Rightarrow> string \<Rightarrow> 'v scan_step" where
  "scan_core_clr_path sys clr_minimum_version core_clr_path =
     (case pal_fs_get_directory_name (directory_separator sys) (Some core_clr_path) of
        None \<Rightarrow> Skipped
      | Some clr_directory_core_clrversion \<Rightarrow>
          (case semver_parse sys clr_directory_core_clrversion of
             None \<Rightarrow> Parse_Failed
           | Some core_clr_version \<Rightarrow>
               if core_clr_version < clr_minimum_version then Skipped
               else
                 (case os_path_combine sys core_clr_path core_clr_dll of
                    None \<Rightarrow> Skipped
                  | Some core_clr_dll_path \<Rightarrow>
                      (case pal_fs_file_exists (os_file_exists sys) (Some core_clr_dll_path) of
                         Some True \<Rightarrow>
                           Candidate
                             \<lparr>root_path = core_clr_path, dll_path = core_clr_dll_path,
                              version = core_clr_version\<rparr>
                       | _ \<Rightarrow> Skipped))))"

text \<open>The candidate that an entry of the listing yields, if any.\<close>

definition candidate_of :: "('v :: linorder, 'h) system \<Rightarrow> 'v \<Rightarrow> string \<Rightarrow> 'v core_clr_directory option" where
  "candidate_of sys m p = (case scan_core_clr_path sys m p of Candidate d \<Rightarrow> Some d | _ \<Rightarrow> None)"

text \<open>
  The versions that the names of the listed directories parse to, in enumeration order
  (none when the listing fails).
\<close>

definition listed_versions :: "('v, 'h) system \<Rightarrow> string \<Rightarrow> 'v list" where
  "listed_versions sys core_clr_root_path =
     (case os_list_directories sys core_clr_root_path of
        None \<Rightarrow> []
      | Some core_clr_paths \<Rightarrow>
          List.map_filter
            (\<lambda>p. Option.bind (pal_fs_get_directory_name (directory_separator sys) (Some p))
                    (semver_parse sys))
            core_clr_paths)"

text \<open>
  The loop itself, with the vector \<^verbatim>\<open>core_clr_directories\<close> and the lines written to
  \<^verbatim>\<open>std::wcerr\<close> (the path that failed to parse) as accumulators.
\<close>

fun scan_core_clr_paths ::
  "('v :: linorder, 'h) system \<Rightarrow> 'v \<Rightarrow> string list \<Rightarrow> 'v core_clr_directory list \<Rightarrow> string list
     \<Rightarrow> 'v core_clr_directory list \<times> string list" where
  "scan_core_clr_paths sys clr_minimum_version [] core_clr_directories errors =
     (core_clr_directories, errors)"
| "scan_core_clr_paths sys clr_minimum_version (core_clr_path # rest) core_clr_directories errors =
     (case scan_core_clr_path sys clr_minimum_version core_clr_path of
        Skipped \<Rightarrow>
          scan_core_clr_paths sys clr_minimum_version rest core_clr_directories errors
      | Parse_Failed \<Rightarrow>
          scan_core_clr_paths sys clr_minimum_version rest core_clr_directories
            (errors @ [core_clr_path])
      | Candidate d \<Rightarrow>
          scan_core_clr_paths sys clr_minimum_version rest (core_clr_directories @ [d]) errors)"

text \<open>
  \<^verbatim>\<open>get_core_directories_from_path\<close>: the candidates, sorted by \<^verbatim>\<open>std::sort\<close> with the
  comparison of versions, and the error lines.  \<^verbatim>\<open>std::sort\<close> yields a permutation that
  is ascending under the comparison; for candidates with pairwise different versions
  that is the list \<open>sort_key version\<close> computes.
\<close>

definition get_core_directories_from_path ::
  "('v :: linorder, 'h) system \<Rightarrow> string \<Rightarrow> 'v \<Rightarrow> 'v core_clr_directory list \<times> string list" where
  "get_core_directories_from_path sys core_clr_root_path clr_minimum_version =
     (case os_list_directories sys core_clr_root_path of
        None \<Rightarrow> ([], [])
      | Some core_clr_paths \<Rightarrow>
          (case scan_core_clr_paths sys clr_minimum_version core_clr_paths [] [] of
             (core_clr_directories, errors) \<Rightarrow> (sort_key version core_clr_directories, errors)))"

section \<open>Loading the runtime\<close>

text \<open>
  \<^verbatim>\<open>try_load_core_clr(directory_path, core_clr_version)\<close>: the library must exist, load
  and be pinned; the version is only recorded in the instance.
\<close>

definition try_load_core_clr_directory ::
  "('v, 'h) system \<Rightarrow> string \<Rightarrow> 'v \<Rightarrow> ('v, 'h) core_clr_instance option" where
  "try_load_core_clr_directory sys directory_path core_clr_version =
     (case os_path_combine sys directory_path core_clr_dll of
        None \<Rightarrow> None
      | Some core_clr_dll_path \<Rightarrow>
          (case pal_fs_file_exists (os_file_exists sys) (Some core_clr_dll_path) of
             Some True \<Rightarrow>
               (case os_load_library sys core_clr_dll_path of
                  None \<Rightarrow> None
                | Some core_clr_instance_ptr \<Rightarrow>
                    if \<not> os_pin_module sys core_clr_dll_path then None
                    else Some
                      \<lparr>instance_ptr = core_clr_instance_ptr,
                       directory =
                         \<lparr>root_path = directory_path, dll_path = core_clr_dll_path,
                          version = core_clr_version\<rparr>\<rparr>)
           | _ \<Rightarrow> None))"

text \<open>
  The loop over the candidates in \<^verbatim>\<open>try_load_core_clr(executable_path, ...)\<close>, which
  leaves at the first instance.  Loading a library is an effect, so the function also
  returns the directories it handed to the loader, in the order of the calls.
\<close>

fun try_core_clr_directories ::
  "('v, 'h) system \<Rightarrow> 'v core_clr_directory list
     \<Rightarrow> ('v, 'h) core_clr_instance option \<times> string list" where
  "try_core_clr_directories sys [] = (None, [])"
| "try_core_clr_directories sys (clr_directory # rest) =
     (case try_load_core_clr_directory sys (root_path clr_directory) (version clr_directory) of
        Some core_clr_instance \<Rightarrow> (Some core_clr_instance, [root_path clr_directory])
      | None \<Rightarrow>
          (case try_core_clr_directories sys rest of
             (core_clr_instance, tried) \<Rightarrow> (core_clr_instance, root_path clr_directory # tried)))"

text \<open>A candidate directory from which the runtime does not load.\<close>

definition cannot_load :: "('v, 'h) system \<Rightarrow> 'v core_clr_directory \<Rightarrow> bool" where
  "cannot_load sys d \<longleftrightarrow> try_load_core_clr_directory sys (root_path d) (version d) = None"

text \<open>
  \<^verbatim>\<open>try_load_core_clr(executable_path, arguments, clr_minimum_version)\<close>.  The outer
  \<open>option\<close> is that of \<open>pal_env_expand_str\<close>: \<open>None\<close> when the expansion of the
  installed-runtimes root never returns.
\<close>

definition try_load_core_clr ::
  "('v :: linorder, 'h) system \<Rightarrow> string \<Rightarrow> string list \<Rightarrow> 'v
     \<Rightarrow> (('v, 'h) core_clr_instance option \<times> string list) option" where
  "try_load_core_clr sys executable_path arguments clr_minimum_version =
     (case os_directory_name_full_path sys executable_path of
        None \<Rightarrow> Some (None, [])
      | Some executable_directory_path \<Rightarrow>
          (case try_load_core_clr_directory sys executable_directory_path (semver_default sys) of
             Some core_clr_instance \<Rightarrow> Some (Some core_clr_instance, [executable_directory_path])
           | None \<Rightarrow>
               (case pal_env_expand_str PLATFORM_WINDOWS (os_environment sys)
                       (Some core_clr_program_files_directory_path) of
                  None \<Rightarrow> None
                | Some None \<Rightarrow> Some (None, [executable_directory_path])
                | Some (Some core_clr_program_files_directory_expanded) \<Rightarrow>
                    (case try_core_clr_directories sys
                            (fst (get_core_directories_from_path sys
                                    core_clr_program_files_directory_expanded
                                    clr_minimum_version)) of
                       (core_clr_instance, tried) \<Rightarrow>
                         Some (core_clr_instance, executable_directory_path # tried)))))"

section \<open>The trusted platform assemblies\<close>

definition trusted_platform_assemblies_extension_list :: "string list" where
  "trusted_platform_assemblies_extension_list =
     [''*.ni.dll'', ''*.dll'', ''*.ni.exe'', ''*.exe'', ''*.ni.winmd'', ''*.winmd'']"

text \<open>
  The inner loop of \<^verbatim>\<open>get_trusted_platform_assemblies\<close>: a file is appended unless
  \<^verbatim>\<open>std::find\<close> finds an equal string in the list.
\<close>

fun add_files :: "string list \<Rightarrow> string list \<Rightarrow> string list" where
  "add_files trusted_platform_assemblies_list [] = trusted_platform_assemblies_list"
| "add_files trusted_platform_assemblies_list (file # files) =
     (if file \<in> set trusted_platform_assemblies_list
      then add_files trusted_platform_assemblies_list files
      else add_files (trusted_platform_assemblies_list @ [file]) files)"

text \<open>The outer loop, over the extensions; a listing that fails is passed over.\<close>

fun probe_extensions ::
  "('v, 'h) system \<Rightarrow> string \<Rightarrow> string list \<Rightarrow> string list \<Rightarrow> string list" where
  "probe_extensions sys path [] trusted_platform_assemblies_list =
     trusted_platform_assemblies_list"
| "probe_extensions sys path (extension # extensions) trusted_platform_assemblies_list =
     (case os_list_files sys path extension of
        None \<Rightarrow> probe_extensions sys path extensions trusted_platform_assemblies_list
      | Some files \<Rightarrow>
          probe_extensions sys path extensions (add_files trusted_platform_assemblies_list files))"

fun get_trusted_platform_assemblies :: "('v, 'h) system \<Rightarrow> string option \<Rightarrow> string list" where
  "get_trusted_platform_assemblies sys None = []"
| "get_trusted_platform_assemblies sys (Some trusted_platform_assemblies_path) =
     probe_extensions sys trusted_platform_assemblies_path
       trusted_platform_assemblies_extension_list []"

text \<open>
  \<^verbatim>\<open>build_trusted_platform_assemblies_str\<close> in two parts: the vector
  \<^verbatim>\<open>trusted_platform_assemblies\<close> as it is before the last loop, and the string that
  loop builds from it.
\<close>

definition trusted_platform_assemblies ::
  "('v, 'h) system \<Rightarrow> string \<Rightarrow> ('v, 'h) core_clr_instance \<Rightarrow> string list" where
  "trusted_platform_assemblies sys executable_path core_clr_instance =
     (let tpa = get_trusted_platform_assemblies sys
                  (Some (root_path (directory core_clr_instance)))
      in if executable_path \<in> set tpa then tpa else tpa @ [executable_path])"

fun append_with_semicolons :: "string list \<Rightarrow> string" where
  "append_with_semicolons [] = []"
| "append_with_semicolons [tpa] = tpa"
| "append_with_semicolons (tpa # rest) = tpa @ '';'' @ append_with_semicolons rest"

fun build_trusted_platform_assemblies_str ::
  "('v, 'h) system \<Rightarrow> string \<Rightarrow> ('v, 'h) core_clr_instance option \<Rightarrow> string" where
  "build_trusted_platform_assemblies_str sys executable_path None = []"
| "build_trusted_platform_assemblies_str sys executable_path (Some core_clr_instance) =
     append_with_semicolons (trusted_platform_assemblies sys executable_path core_clr_instance)"

section \<open>The bootstrap sequence\<close>

text \<open>
  The hosting interface \<^verbatim>\<open>ICLRRuntimeHost2\<close> belongs to the runtime.  Each call is
  made at most once in a run, so the interface is the record of what its calls answer:
  an \<^verbatim>\<open>HRESULT\<close>, and for \<^verbatim>\<open>CreateAppDomainWithManager\<close> and \<^verbatim>\<open>ExecuteAssembly\<close> also
  the value stored through the last argument.  \<open>get_clr_runtime_host_succeeds\<close> tells
  for a module handle whether \<^verbatim>\<open>get_clr_runtime_host\<close> returns an interface pointer
  (the export is found and its call does not fail).  \<open>is_instance_loaded\<close> and
  \<open>is_host_created\<close> are the two queries of the class \<^verbatim>\<open>core_clr_instance\<close>, which the
  sources at hand do not define.
\<close>

record 'h runtime_host =
  get_clr_runtime_host_succeeds :: "'h \<Rightarrow> bool"
  SetStartupFlags :: "32 word \<Rightarrow> 32 word"
  Start :: "32 word"
  is_instance_loaded :: bool
  is_host_created :: bool
  CreateAppDomainWithManager :: "string \<Rightarrow> string list \<Rightarrow> string list \<Rightarrow> 32 word \<times> 32 word"
  ExecuteAssembly :: "32 word \<Rightarrow> string \<Rightarrow> int \<Rightarrow> string \<Rightarrow> 32 word \<times> 32 word"
  UnloadAppDomain :: "32 word \<Rightarrow> 32 word"
  Stop :: "32 word"

text \<open>The macro \<^verbatim>\<open>FAILED\<close>: an \<^verbatim>\<open>HRESULT\<close> is a failure when it is negative.\<close>

definition FAILED :: "32 word \<Rightarrow> bool" where
  "FAILED hr \<longleftrightarrow> sint hr < 0"

definition property_keys :: "string list" where
  "property_keys =
     [''TRUSTED_PLATFORM_ASSEMBLIES'', ''APP_PATHS'', ''APP_NI_PATHS'',
      ''NATIVE_DLL_SEARCH_DIRECTORIES'', ''APP_LOCAL_WINMETADATA'']"

text \<open>
  \<^verbatim>\<open>create_clr_appdomain\<close>: \<open>Some\<close> of the domain identifier for \<^verbatim>\<open>TRUE\<close>.  The
  domain flags and the two null manager arguments are constants of the call.
\<close>

definition create_clr_appdomain ::
  "'h runtime_host \<Rightarrow> string \<Rightarrow> string option \<Rightarrow> string
     \<Rightarrow> ('v, 'h) core_clr_instance option \<Rightarrow> 32 word option" where
  "create_clr_appdomain host executable_path executable_working_directory
       trusted_platform_assemblies_str core_clr_instance =
     (case (executable_working_directory, core_clr_instance) of
        (Some working_directory, Some inst) \<Rightarrow>
          if executable_path = [] \<or> trusted_platform_assemblies_str = []
             \<or> is_instance_loaded host = False \<or> is_host_created host = False
          then None
          else
            (let executable_paths =
                   working_directory @ '';'' @ root_path (directory inst) @ '';'' @ ''NI''
                     @ '';'' @ working_directory;
                 property_values =
                   [trusted_platform_assemblies_str, executable_paths, executable_paths,
                    executable_paths, executable_paths]
             in case CreateAppDomainWithManager host executable_path property_keys
                       property_values of
                  (hr, appdomain_id) \<Rightarrow> if FAILED hr then None else Some appdomain_id)
      | _ \<Rightarrow> None)"

text \<open>\<^verbatim>\<open>to_clr_arguments\<close>: the number of arguments and the arguments joined by blanks.\<close>

fun append_with_blanks :: "string list \<Rightarrow> string" where
  "append_with_blanks [] = []"
| "append_with_blanks [argument] = argument"
| "append_with_blanks (argument # rest) = argument @ '' '' @ append_with_blanks rest"

definition to_clr_arguments :: "string list \<Rightarrow> int \<times> string" where
  "to_clr_arguments arguments = (int (length arguments), append_with_blanks arguments)"

text \<open>
  \<^verbatim>\<open>snap::coreclr::run\<close>.  The function returns \<^verbatim>\<open>int\<close>: \<^verbatim>\<open>return -1\<close> is \<open>- 1\<close>,
  \<^verbatim>\<open>return false\<close> is \<open>0\<close>, and the \<^verbatim>\<open>unsigned long\<close> exit code (32 bits on Windows)
  is converted to \<^verbatim>\<open>int\<close>.  The outer \<open>option\<close> is that of \<open>try_load_core_clr\<close>.
\<close>

definition run ::
  "('v :: linorder, 'h) system \<Rightarrow> 'h runtime_host \<Rightarrow> startup_flags \<Rightarrow> string \<Rightarrow> string list \<Rightarrow> 'v
     \<Rightarrow> int option" where
  "run sys host F executable_path arguments clr_minimum_version =
     (if pal_fs_file_exists (os_file_exists sys) (Some executable_path) \<noteq> Some True
      then Some (- 1)
      else
        (case os_directory_name_full_path sys executable_path of
           None \<Rightarrow> Some (- 1)
         | Some executable_working_directory \<Rightarrow>
             (case try_load_core_clr sys executable_path arguments clr_minimum_version of
                None \<Rightarrow> None
              | Some (None, tried) \<Rightarrow> Some (- 1)
              | Some (Some core_clr_instance, tried) \<Rightarrow>
                  if get_clr_runtime_host_succeeds host (instance_ptr core_clr_instance) = False
                  then Some (- 1)
                  else if FAILED (SetStartupFlags host
                                    (create_clr_startup_flags F (os_environment sys)))
                  then Some 0
                  else if FAILED (Start host) then Some 0
                  else
                    (let trusted_platform_assemblies_str =
                           build_trusted_platform_assemblies_str sys executable_path
                             (Some core_clr_instance)
                     in if trusted_platform_assemblies_str = [] then Some (- 1)
                        else
                          (case create_clr_appdomain host executable_path
                                  (Some executable_working_directory)
                                  trusted_platform_assemblies_str (Some core_clr_instance) of
                             None \<Rightarrow> Some (- 1)
                           | Some app_domain_id \<Rightarrow>
                               (case to_clr_arguments arguments of
                                  (argc, argw) \<Rightarrow>
                                    (case ExecuteAssembly host app_domain_id executable_path
                                            argc argw of
                                       (hr, execute_assembly_exit_code) \<Rightarrow>
                                         if FAILED hr then Some 0
                                         else if FAILED (UnloadAppDomain host app_domain_id)
                                         then Some 0
                                         else if FAILED (Stop host) then Some 0
                                         else Some (sint execute_assembly_exit_code))))))))"

section \<open>A concrete system\<close>

text \<open>
  An installation to run the definitions on: the application \<^verbatim>\<open>C:\apps\foo\foo.exe\<close>
  without a runtime of its own, and the runtimes 1.9.0, 2.0.0 and 2.1.5 (and a directory
  \<^verbatim>\<open>preview\<close>) under the installed-runtimes root.  Versions are triples of numbers in
  lexicographic order, module handles are numbers.
\<close>

fun windows_path :: "string list \<Rightarrow> string" where
  "windows_path [] = []"
| "windows_path [c] = c"
| "windows_path (c # cs) = c @ [CHR 0x5C] @ windows_path cs"

definition installed_runtimes :: string where
  "installed_runtimes = windows_path [''C:'', ''PF'', ''dotnet'', ''shared'', ''microsoft.netcore.app'']"

definition example_versions :: "string \<Rightarrow> (nat \<times> nat \<times> nat) option" where
  "example_versions name =
     (if name = ''1.9.0'' then Some (1, 9, 0)
      else if name = ''2.0.0'' then Some (2, 0, 0)
      else if name = ''2.1.5'' then Some (2, 1, 5)
      else None)"

definition example_system :: "(nat \<times> nat \<times> nat, nat) system" where
  "example_system =
     \<lparr>os_list_directories = (\<lambda>root.
        if root = installed_runtimes
        then Some [windows_path [installed_runtimes, ''2.1.5''],
                   windows_path [installed_runtimes, ''preview''],
                   windows_path [installed_runtimes, ''1.9.0''],
                   windows_path [installed_runtimes, ''2.0.0'']]
        else None),
      os_list_files = (\<lambda>root pattern.
        if root = windows_path [installed_runtimes, ''2.0.0''] then
          (if pattern = ''*.ni.dll''
           then Some [windows_path [installed_runtimes, ''2.0.0'', ''mscorlib.ni.dll'']]
           else if pattern = ''*.dll''
           then Some [windows_path [installed_runtimes, ''2.0.0'', ''coreclr.dll''],
                      windows_path [installed_runtimes, ''2.0.0'', ''mscorlib.dll''],
                      windows_path [installed_runtimes, ''2.0.0'', ''mscorlib.ni.dll'']]
           else None)
        else None),
      os_path_combine = (\<lambda>path1 path2. Some (windows_path [path1, path2])),
      os_file_exists = (\<lambda>path.
        path \<in> set [windows_path [''C:'', ''apps'', ''foo'', ''foo.exe''],
                    windows_path [installed_runtimes, ''1.9.0'', ''coreclr.dll''],
                    windows_path [installed_runtimes, ''2.0.0'', ''coreclr.dll''],
                    windows_path [installed_runtimes, ''2.1.5'', ''coreclr.dll'']]),
      os_directory_name_full_path = (\<lambda>path.
        if path = windows_path [''C:'', ''apps'', ''foo'', ''foo.exe'']
        then Some (windows_path [''C:'', ''apps'', ''foo'']) else None),
      os_load_library = (\<lambda>path.
        if path = windows_path [installed_runtimes, ''2.0.0'', ''coreclr.dll''] then Some 200
        else if path = windows_path [installed_runtimes, ''2.1.5'', ''coreclr.dll''] then Some 215
        else None),
      os_pin_module = (\<lambda>path. True),
      os_environment = [''programfiles'' \<mapsto> windows_path [''C:'', ''PF'']],
      directory_separator = CHR 0x5C,
      semver_parse = example_versions,
      semver_default = (0, 0, 0)\<rparr>"

definition example_host :: "nat runtime_host" where
  "example_host =
     \<lparr>get_clr_runtime_host_succeeds = (\<lambda>h. True),
      SetStartupFlags = (\<lambda>flags. 0),
      Start = 0,
      is_instance_loaded = True,
      is_host_created = True,
      CreateAppDomainWithManager = (\<lambda>name keys vals. (0, 1)),
      ExecuteAssembly = (\<lambda>domain path argc argw. (0, 42)),
      UnloadAppDomain = (\<lambda>domain. 0),
      Stop = 0\<rparr>"

definition foo_exe :: string where
  "foo_exe = windows_path [''C:'', ''apps'', ''foo'', ''foo.exe'']"

definition runtime_2_0_0 :: "(nat \<times> nat \<times> nat, nat) core_clr_instance" where
  "runtime_2_0_0 =
     \<lparr>instance_ptr = 200,
      directory =
        \<lparr>root_path = windows_path [installed_runtimes, ''2.0.0''],
         dll_path = windows_path [installed_runtimes, ''2.0.0'', ''coreclr.dll''],
         version = (2, 0, 0)\<rparr>\<rparr>"

definition self_contained_system :: "(nat \<times> nat \<times> nat, nat) system" where
  "self_contained_system =
     example_system
       \<lparr>os_file_exists := (\<lambda>path.
          path \<in> set [foo_exe, windows_path [''C:'', ''apps'', ''foo'', ''coreclr.dll'']]),
        os_load_library := (\<lambda>path.
          if path = windows_path [''C:'', ''apps'', ''foo'', ''coreclr.dll''] then Some 7
          else None)\<rparr>"

section \<open>Properties of the string helpers\<close>

lemma pal_str_iequals_length: "pal_str_iequals lhs rhs \<Longrightarrow> length lhs = length rhs"
  by (simp add: pal_str_iequals_def)

lemma pal_str_iequals_refl: "pal_str_iequals s s"
  by (simp add: pal_str_iequals_def list_all2_same)

text \<open>
  What \<^verbatim>\<open>pal_str_endswith\<close> returns when \<^verbatim>\<open>src\<close> is at least as long as \<^verbatim>\<open>str\<close>, and
  when it is shorter.
\<close>

lemma suffix_iff_drop:
  assumes "length b \<le> length a"
  shows "suffix b a \<longleftrightarrow> drop (length a - length b) a = b"
proof
  assume "suffix b a"
  then obtain c where "a = c @ b"
    by (auto simp: suffix_def)
  then show "drop (length a - length b) a = b"
    by simp
next
  assume "drop (length a - length b) a = b"
  then show "suffix b a"
    by (metis suffix_drop)
qed

lemma pal_str_endswith_inside:
  assumes "length str \<le> length src" and "length src < 2 ^ 64"
  shows "pal_str_endswith in_front (Some src) (Some str)
           = Inr (suffix str src \<and> length str < length src)"
proof -
  define d where "d = length src - length str"
  have w: "(word_of_nat (length src) - word_of_nat (length str) :: size_t) = word_of_nat d"
    using assms(1) by (simp add: d_def of_nat_diff)
  have "d < 2 ^ 64"
    using assms(2) by (simp add: d_def)
  then have u: "unat (word_of_nat d :: size_t) = d"
    by (simp add: unat_of_nat)
  have p: "0 < (word_of_nat d :: size_t) \<longleftrightarrow> 0 < d"
    using u by (metis unat_gt_0 word_greater_zero_iff)
  have "pal_str_endswith in_front (Some src) (Some str)
          = (if 0 < d then Inr (drop d src = str) else Inr False)"
    using assms(1) by (simp add: w u p Let_def) (simp add: d_def)
  then show ?thesis
    using assms(1) suffix_iff_drop [OF assms(1)]
    by (auto simp: d_def)
qed

lemma pal_str_endswith_wrapped:
  assumes "length src < length str" and "length str < 2 ^ 64"
  shows "pal_str_endswith in_front (Some src) (Some str)
           = (if length str - length src \<le> length in_front
              then Inr (c_string_at
                          (drop (length in_front - (length str - length src)) in_front @ src)
                        = str)
              else Inl Undefined_Behaviour)"
proof -
  let ?a = "word_of_nat (length src) :: size_t"
  let ?b = "word_of_nat (length str) :: size_t"
  have ua: "unat ?a = length src" and ub: "unat ?b = length str"
    using assms by (simp_all add: unat_of_nat)
  have ud: "unat (?a - ?b) = length src + 2 ^ 64 - length str"
    using unat_sub_if_size [of ?a ?b] assms(1) by (simp add: ua ub word_size)
  then have pos: "0 < ?a - ?b"
    using assms(2) by (simp add: word_less_nat_alt)
  have nle: "\<not> unat (?a - ?b) \<le> length src"
    using ud assms(2) by simp
  have k: "2 ^ 64 - unat (?a - ?b) = length str - length src"
    using ud assms by simp
  show ?thesis
    using pos nle k by (simp add: Let_def)
qed

lemma pal_str_endswith_self: "pal_str_endswith in_front (Some s) (Some s) = Inr False"
  by simp

text \<open>
  The file listing with an extension filter: an entry that is returned has passed
  \<^verbatim>\<open>pal_str_endswith\<close>, and an entry whose name is the filter itself never does, so the
  listing is the same with and without it.
\<close>

lemma list_entry_file_endswith:
  assumes "list_entry path_in (Some ext) stat 1 entry = Inr (Some p)"
  shows "p = path_in @ ''/'' @ d_name entry
         \<and> pal_str_endswith (d_in_front_of_name entry) (Some (d_name entry)) (Some ext)
             = Inr True"
  using assms
  by (auto simp: list_entry_def list_entry_filter_def Let_def
           simp del: pal_str_endswith.simps
           split: d_type.splits sum.splits bool.splits option.splits if_splits)

lemma list_entry_name_is_filter:
  "d_name entry = ext \<Longrightarrow> list_entry path_in (Some ext) stat 1 entry = Inr None"
  by (cases "d_type entry") (simp_all add: list_entry_def list_entry_filter_def)

lemma list_loop_name_is_filter:
  assumes "d_name entry = ext"
  shows "list_loop path_in cb (Some ext) stat 1 (entries @ entry # rest) paths
           = list_loop path_in cb (Some ext) stat 1 (entries @ rest) paths"
proof (induction entries arbitrary: paths)
  case Nil
  then show ?case
    by (simp add: list_entry_name_is_filter [OF assms])
next
  case (Cons e entries)
  then show ?case
    by (cases "list_entry path_in (Some ext) stat 1 e"; cases cb)
       (simp_all split: option.splits)
qed

lemma list_loop_files_endswith:
  assumes "list_loop path_in cb (Some ext) stat 1 entries paths = Inr ps"
    and "p \<in> set ps" and "p \<notin> set paths"
  shows "\<exists>entry \<in> set entries. p = path_in @ ''/'' @ d_name entry
           \<and> pal_str_endswith (d_in_front_of_name entry) (Some (d_name entry)) (Some ext)
               = Inr True"
  using assms
proof (induction entries arbitrary: paths)
  case Nil
  then show ?case by simp
next
  case (Cons entry rest)
  show ?case
  proof (cases "list_entry path_in (Some ext) stat 1 entry")
    case (Inl a)
    with Cons.prems show ?thesis by simp
  next
    case (Inr r)
    show ?thesis
    proof (cases r)
      case None
      with Inr Cons.prems Cons.IH [of paths] show ?thesis by auto
    next
      case (Some q)
      note q = list_entry_file_endswith [OF Inr [unfolded Some]]
      show ?thesis
      proof (cases "p = q")
        case True
        with q show ?thesis by auto
      next
        case False
        then have "p \<notin> set (paths @ [q])"
          using Cons.prems(3) by simp
        with Inr Some Cons.prems Cons.IH [of paths] Cons.IH [of "paths @ [q]"]
        show ?thesis
          by (auto split: option.splits if_splits)
      qed
    qed
  qed
qed

lemma pal_fs_list_files_never_the_filter:
  assumes "pal_fs_list_files dir stat (Some path_in) cb (Some ext) = Inr (Some files)"
  shows "path_in @ ''/'' @ ext \<notin> set files"
proof
  assume m: "path_in @ ''/'' @ ext \<in> set files"
  from assms obtain entries where
    "list_loop path_in cb (Some ext) stat 1 entries [] = Inr files"
    by (cases dir; cases "list_loop path_in cb (Some ext) stat 1 (the dir) []")
       (auto simp: pal_fs_list_files_def)
  from list_loop_files_endswith [OF this m]
  obtain entry where "path_in @ ''/'' @ ext = path_in @ ''/'' @ d_name entry"
    and "pal_str_endswith (d_in_front_of_name entry) (Some (d_name entry)) (Some ext)
           = Inr True"
    by auto
  then show False
    by simp
qed

text \<open>
  C10.  The claim is that \<^verbatim>\<open>pal_str_endswith(src, str)\<close> returns \<^verbatim>\<open>TRUE\<close> only when
  \<^verbatim>\<open>str\<close> is a suffix of \<^verbatim>\<open>src\<close> that is strictly shorter than \<^verbatim>\<open>src\<close>.  With \<^verbatim>\<open>src\<close>
  the file name \<^verbatim>\<open>a.dll\<close> inside the array \<^verbatim>\<open>/usr/lib/a.dll\<close> and \<^verbatim>\<open>str\<close> the longer
  string \<^verbatim>\<open>lib/a.dll\<close>, the difference of the lengths wraps around, the guard
  \<^verbatim>\<open>diff > 0\<close> passes, \<^verbatim>\<open>&src[diff]\<close> is four characters in front of \<^verbatim>\<open>src\<close>, and the
  code returns \<^verbatim>\<open>TRUE\<close>; so it does for \<^verbatim>\<open>dll\<close> stored as the tail of \<^verbatim>\<open>a.dll\<close>.
\<close>

theorem pal_str_endswith_true_for_longer_str:
  "pal_str_endswith ''/usr/lib/'' (Some ''a.dll'') (Some ''lib/a.dll'') = Inr True
   \<and> \<not> suffix ''lib/a.dll'' ''a.dll''
   \<and> pal_str_endswith ''a.'' (Some ''dll'') (Some ''a.dll'') = Inr True
   \<and> \<not> suffix ''a.dll'' ''dll''"
  by (simp add: c_string_at_def suffix_def word_greater_zero_iff)

section \<open>Properties of the environment functions\<close>

lemma pal_env_get_variable_bool_set:
  assumes "env name = Some v"
  shows "pal_env_get_variable_bool env (Some name) = Some True"
proof -
  have "\<not> (pal_str_iequals v ''1'' \<and> pal_str_iequals v ''true'')"
    by (auto dest!: pal_str_iequals_length)
  with assms show ?thesis
    by (auto simp: pal_env_get_variable_bool_def)
qed

lemma pal_env_get_variable_bool_unset:
  "env name = None \<Longrightarrow> pal_env_get_variable_bool env (Some name) = None"
  by (simp add: pal_env_get_variable_bool_def)

text \<open>
  C1.  The claim is that \<^verbatim>\<open>pal_env_get_variable_bool\<close> reports true exactly for the
  values "1" and "true" (in any case) and false for every other value.  The code
  reports true for the value "0" (and for "false"), as it does for every set variable.
\<close>

theorem pal_env_get_variable_bool_zero_reports_true:
  "pal_env_get_variable_bool [''CORECLR_SERVER_GC'' \<mapsto> ''0''] (Some ''CORECLR_SERVER_GC'')
     = Some True
   \<and> pal_env_get_variable_bool [''CORECLR_SERVER_GC'' \<mapsto> ''false'']
        (Some ''CORECLR_SERVER_GC'') = Some True"
  by (simp add: pal_env_get_variable_bool_set)

lemma expand_loop_stuck:
  assumes m: "regex_search pf s = Some m"
    and u: "case env (fst (snd m)) of None \<Rightarrow> True | Some v \<Rightarrow> fst m @ v @ snd (snd m) = s"
  shows "expand_loop pf env s n = None"
proof (rule ccontr)
  assume "expand_loop pf env s n \<noteq> None"
  then obtain y where y: "expand_loop pf env s n = Some y"
    by auto
  have "\<not> (pf = pf \<and> env = env \<and> s = s)"
  proof (rule expand_loop.raw_induct
      [where P = "\<lambda>pf' env' s' n' y'. \<not> (pf' = pf \<and> env' = env \<and> s' = s)", OF _ y])
    fix f :: "platform \<Rightarrow> environment \<Rightarrow> string \<Rightarrow> nat \<Rightarrow> (string \<times> nat) option"
    fix pf' env' s' n' y'
    assume ih: "\<And>pf' env' s' n' y'. f pf' env' s' n' = Some y'
                  \<Longrightarrow> \<not> (pf' = pf \<and> env' = env \<and> s' = s)"
      and step: "(case regex_search pf' s' of
                    None \<Rightarrow> Some (s', n')
                  | Some m \<Rightarrow>
                      (case pal_env_get_variable env' (Some (fst (snd m))) of
                         None \<Rightarrow> f pf' env' s' n'
                       | Some v \<Rightarrow> f pf' env' (fst m @ v @ snd (snd m)) (n' + 1))) = Some y'"
    show "\<not> (pf' = pf \<and> env' = env \<and> s' = s)"
    proof
      assume e: "pf' = pf \<and> env' = env \<and> s' = s"
      with step m u have "\<exists>k. f pf env s k = Some y'"
        by (auto split: option.splits)
      then obtain k where "f pf env s k = Some y'" ..
      from ih [OF this] show False by simp
    qed
  qed
  then show False by simp
qed

lemma regex_search_program_files:
  "regex_search PLATFORM_WINDOWS core_clr_program_files_directory_path
     = Some ([], ''programfiles'',
         [CHR 0x5C] @ ''dotnet'' @ [CHR 0x5C] @ ''shared'' @ [CHR 0x5C]
           @ ''microsoft.netcore.app'')"
  by (simp add: core_clr_program_files_directory_path_def is_reference_char_def)

text \<open>
  C3.  The claim is that \<^verbatim>\<open>pal_env_expand_str\<close> terminates on every template and
  environment.  The code does not return when the first reference names a variable that
  is not set (here the installed-runtimes root of \<^verbatim>\<open>coreclr.cpp\<close> without
  \<^verbatim>\<open>programfiles\<close>), nor when a variable's value is a reference to itself.
\<close>

theorem pal_env_expand_str_never_returns:
  "pal_env_expand_str PLATFORM_WINDOWS (\<lambda>name. None)
       (Some core_clr_program_files_directory_path) = None
   \<and> pal_env_expand_str PLATFORM_LINUX (\<lambda>name. None) (Some ''${HOME}/.dotnet'') = None
   \<and> pal_env_expand_str PLATFORM_WINDOWS [''A'' \<mapsto> ''%A%''] (Some ''%A%'') = None"
proof (intro conjI)
  have "expand_loop PLATFORM_WINDOWS (\<lambda>name. None) core_clr_program_files_directory_path 0
          = None"
    by (rule expand_loop_stuck [OF regex_search_program_files]) simp
  then show "pal_env_expand_str PLATFORM_WINDOWS (\<lambda>name. None)
       (Some core_clr_program_files_directory_path) = None"
    by simp
  have "regex_search PLATFORM_LINUX ''${HOME}/.dotnet'' = Some ([], ''HOME'', ''/.dotnet'')"
    by simp
  from expand_loop_stuck [OF this, of "\<lambda>name. None" 0]
  show "pal_env_expand_str PLATFORM_LINUX (\<lambda>name. None) (Some ''${HOME}/.dotnet'') = None"
    by simp
  have "regex_search PLATFORM_WINDOWS ''%A%'' = Some ([], ''A'', [])"
    by (simp add: is_reference_char_def)
  from expand_loop_stuck [OF this, of "[''A'' \<mapsto> ''%A%'']" 0]
  show "pal_env_expand_str PLATFORM_WINDOWS [''A'' \<mapsto> ''%A%''] (Some ''%A%'') = None"
    by simp
qed

lemma pal_env_expand_str_program_files:
  "pal_env_expand_str PLATFORM_WINDOWS [''programfiles'' \<mapsto> ''C:/PF'']
       (Some core_clr_program_files_directory_path)
     = Some (Some (''C:/PF'' @ [CHR 0x5C] @ ''dotnet'' @ [CHR 0x5C] @ ''shared'' @ [CHR 0x5C]
           @ ''microsoft.netcore.app''))"
  by (simp add: expand_loop.simps core_clr_program_files_directory_path_def
        is_reference_char_def)

section \<open>Properties of the startup flags\<close>

lemma create_clr_startup_flags_present:
  "create_clr_startup_flags F env =
     baseline_startup_flags F
       OR (if env server_gc_environment_var = None then 0 else STARTUP_SERVER_GC F)
       OR (if env concurrent_gc_environment_var = None then 0 else STARTUP_CONCURRENT_GC F)"
proof -
  have r: "read_flag_for_environment_variable env w b v
             = w OR (if env v = None then 0 else b)" for w b v
    by (cases "env v")
       (simp_all add: read_flag_for_environment_variable_def pal_env_get_variable_bool_set
          pal_env_get_variable_bool_unset)
  show ?thesis
    by (simp add: create_clr_startup_flags_def r Let_def ac_simps)
qed

text \<open>
  C9.  The claim is that a toggle that is present overrides its flag bit with the toggle's
  boolean value.  With \<^verbatim>\<open>CORECLR_SERVER_GC\<close> set to "0" the code sets the server-GC bit,
  and with \<^verbatim>\<open>CORECLR_CONCURRENT_GC\<close> set to "0" it leaves the concurrent-GC bit set: the
  flags of both runs.
\<close>

theorem create_clr_startup_flags_zero_sets_bit:
  "create_clr_startup_flags mscoree_startup_flags [''CORECLR_SERVER_GC'' \<mapsto> ''0''] = 0x801003
   \<and> create_clr_startup_flags mscoree_startup_flags [''CORECLR_CONCURRENT_GC'' \<mapsto> ''0'']
       = 0x800003
   \<and> baseline_startup_flags mscoree_startup_flags = 0x800003"
  by (simp add: create_clr_startup_flags_present baseline_startup_flags_def
        mscoree_startup_flags_def server_gc_environment_var_def
        concurrent_gc_environment_var_def)

section \<open>Properties of the path normalisation\<close>

lemma strstr_None_iff: "strstr s n = None \<longleftrightarrow> \<not> sublist n s"
  by (induction s) (auto simp: sublist_Cons_right)

lemma sublist_append_dot:
  assumes "sublist n (p @ ''/.'')" and "last n = CHR ''/''" and "n \<noteq> []"
  shows "sublist n p \<or> suffix (butlast n) p"
proof -
  from assms(1) obtain u v where uv: "p @ ''/.'' = u @ n @ v"
    by (auto simp: sublist_def)
  show ?thesis
  proof (cases v rule: rev_cases)
    case Nil
    with uv have "last (p @ ''/.'') = last (u @ n)"
      by simp
    with assms show ?thesis
      by simp
  next
    case (snoc v1 c)
    note v = snoc
    show ?thesis
    proof (cases v1 rule: rev_cases)
      case Nil
      with uv v have "(p @ ''/'') @ ''.'' = (u @ n) @ [c]"
        by simp
      then have "p @ ''/'' = u @ n"
        by (simp only: append1_eq_conv)
      moreover have "n = butlast n @ ''/''"
        using assms(2,3) by (metis append_butlast_last_id)
      ultimately have "p @ ''/'' = (u @ butlast n) @ ''/''"
        by simp
      then have "p = u @ butlast n"
        by (simp only: append1_eq_conv)
      then show ?thesis
        by (auto simp: suffix_def)
    next
      case (snoc v2 d)
      with uv v have "((p @ ''/'') @ ''.'') = ((u @ n @ v2) @ [d]) @ [c]"
        by simp
      then have "p @ ''/'' = (u @ n @ v2) @ [d]"
        by (simp only: append1_eq_conv)
      then have "p = u @ n @ v2"
        by (simp only: append1_eq_conv)
      then show ?thesis
        by (auto simp: sublist_def)
    qed
  qed
qed

text \<open>Combining a normalised path with \<^verbatim>\<open>.\<close> gives the path back.\<close>

lemma pal_fs_path_combine_dot:
  assumes n: "normalized p" and m: "length p + 3 \<le> max_path"
  shows "pal_fs_path_combine max_path (Some p) (Some ''.'') = Inr (Some p)"
proof -
  let ?b = "p @ ''/.''"
  from n have ne: "p \<noteq> []" and l: "last p \<noteq> CHR ''/''"
    by (simp_all add: normalized_def)
  have 1: "strstr ?b ''/../'' = None"
    using sublist_append_dot [of "''/../''" p] n
    by (auto simp: strstr_None_iff normalized_def)
  have 2: "strstr ?b ''/./'' = None"
    using sublist_append_dot [of "''/./''" p] n
    by (auto simp: strstr_None_iff normalized_def)
  have 3: "remove_tail max_path ?b = Inr p"
    by (simp add: remove_tail_def)
  from ne have 4: "length ?b \<noteq> 0"
    by simp
  have "path_combine_recursive max_path ?b = Inr (Some p)"
    unfolding path_combine_recursive_def using 1 2 3 4
    by (simp del: length_append)
  with ne l m show ?thesis
    by simp
qed

lemma pal_fs_path_combine_dot_example:
  "pal_fs_path_combine 4096 (Some ''/usr/share/dotnet'') (Some ''.'')
     = Inr (Some ''/usr/share/dotnet'')"
  by (rule pal_fs_path_combine_dot) (simp_all add: normalized_def suffix_def)

text \<open>\<^verbatim>\<open>..\<close> above the first component makes the combination fail.\<close>

lemma pal_fs_path_combine_escape:
  "7 \<le> max_path \<Longrightarrow> pal_fs_path_combine max_path (Some ''a'') (Some ''../a'') = Inr None"
  by (simp add: path_combine_recursive_def resolve_parent_dir.simps [of "''a/../a''"])

text \<open>
  C5.  The claim is that \<^verbatim>\<open>pal_fs_path_combine("a/b", "..")\<close> yields \<^verbatim>\<open>a\<close> (besides the
  two properties above, which hold).  The code reaches the trailing \<^verbatim>\<open>/..\<close> case, appends
  a slash and calls the empty copy of \<^verbatim>\<open>path_combine_recursive\<close>: the call ends in
  \<^verbatim>\<open>std::bad_function_call\<close> for every buffer size that holds the eight bytes.
\<close>

theorem pal_fs_path_combine_parent_throws:
  "8 \<le> max_path \<Longrightarrow>
     pal_fs_path_combine max_path (Some ''a/b'') (Some ''..'') = Inl Bad_Function_Call"
  by (simp add: path_combine_recursive_def remove_tail_def
        resolve_parent_dir.simps [of "''a/b/..''"] resolve_current_dir.simps [of "''a/b/..''"])

theorem pal_fs_path_combine_parent_throws_witness:
  "(8 :: nat) \<le> 4096
   \<and> pal_fs_path_combine 4096 (Some ''a/b'') (Some ''..'') = Inl Bad_Function_Call"
  using pal_fs_path_combine_parent_throws [of 4096]
  by simp

section \<open>Properties of the trusted platform assemblies\<close>









section \<open>Properties of the locator\<close>

lemma scan_core_clr_paths_eq:
  "scan_core_clr_paths sys m paths dirs errors =
     (dirs @ List.map_filter (candidate_of sys m) paths,
      errors @ filter (\<lambda>p. scan_core_clr_path sys m p = Parse_Failed) paths)"
proof (induction paths arbitrary: dirs errors)
  case Nil
  then show ?case by (simp add: map_filter_simps)
next
  case (Cons p paths)
  then show ?case
    by (cases "scan_core_clr_path sys m p") (simp_all add: map_filter_simps candidate_of_def)
qed

lemma candidate_ofD:
  assumes "candidate_of sys m p = Some d"
  shows "root_path d = p \<and> m \<le> version d
         \<and> os_path_combine sys p core_clr_dll = Some (dll_path d)
         \<and> os_file_exists sys (dll_path d)
         \<and> Option.bind (pal_fs_get_directory_name (directory_separator sys) (Some p))
              (semver_parse sys) = Some (version d)"
  using assms
  by (auto simp: candidate_of_def scan_core_clr_path_def
           simp del: pal_fs_get_directory_name.simps
           split: option.splits if_splits bool.splits scan_step.splits)

lemma in_set_map_filter:
  "y \<in> set (List.map_filter g xs) \<longleftrightarrow> (\<exists>x. x \<in> set xs \<and> g x = Some y)"
  by (induction xs) (auto split: option.splits)

lemma map_insort_key: "map f (insort_key f x xs) = insort (f x) (map f xs)"
  by (induction xs) simp_all

lemma map_sort_key: "map f (sort_key f xs) = sort (map f xs)"
  by (induction xs) (simp_all add: map_insort_key)

lemma distinct_candidate_versions:
  assumes "distinct (List.map_filter
       (\<lambda>p. Option.bind (pal_fs_get_directory_name (directory_separator sys) (Some p))
               (semver_parse sys)) paths)"
  shows "distinct (map version (List.map_filter (candidate_of sys m) paths))"
  using assms
proof (induction paths)
  case Nil
  then show ?case by (simp add: map_filter_simps)
next
  case (Cons p paths)
  let ?v = "\<lambda>p. Option.bind (pal_fs_get_directory_name (directory_separator sys) (Some p))
               (semver_parse sys)"
  show ?case
  proof (cases "candidate_of sys m p")
    case None
    with Cons show ?thesis
      by (cases "?v p") (simp_all add: map_filter_simps)
  next
    case (Some d)
    from candidate_ofD [OF Some] have v: "?v p = Some (version d)"
      by simp
    with Cons.prems have d: "version d \<notin> set (List.map_filter ?v paths)"
      and r: "distinct (List.map_filter ?v paths)"
      by (simp_all add: map_filter_simps)
    have "version d \<notin> set (map version (List.map_filter (candidate_of sys m) paths))"
    proof
      assume "version d \<in> set (map version (List.map_filter (candidate_of sys m) paths))"
      then obtain q e where "q \<in> set paths" "candidate_of sys m q = Some e" "version e = version d"
        by (auto simp: in_set_map_filter)
      with candidate_ofD [of sys m q e] have "version d \<in> set (List.map_filter ?v paths)"
        by (force simp: in_set_map_filter)
      with d show False ..
    qed
    with Cons.IH [OF r] Some show ?thesis
      by (simp add: map_filter_simps)
  qed
qed

text \<open>
  C6.  When the names of the listed directories that parse as versions parse to pairwise
  different versions, the candidates returned by \<^verbatim>\<open>get_core_directories_from_path\<close> are
  strictly ascending by version, and every candidate has a version that is at least the
  minimum version and a directory in which the runtime library exists.
\<close>

theorem get_core_directories_from_path_sorted:
  assumes d: "distinct (listed_versions sys core_clr_root_path)"
  shows "sorted_wrt (<)
           (map version (fst (get_core_directories_from_path sys core_clr_root_path m)))
    \<and> (\<forall>c \<in> set (fst (get_core_directories_from_path sys core_clr_root_path m)).
          m \<le> version c
          \<and> os_path_combine sys (root_path c) core_clr_dll = Some (dll_path c)
          \<and> os_file_exists sys (dll_path c))"
proof (cases "os_list_directories sys core_clr_root_path")
  case None
  then show ?thesis
    by (simp add: get_core_directories_from_path_def)
next
  case (Some paths)
  let ?cs = "List.map_filter (candidate_of sys m) paths"
  have out: "fst (get_core_directories_from_path sys core_clr_root_path m) = sort_key version ?cs"
    using Some by (simp add: get_core_directories_from_path_def scan_core_clr_paths_eq)
  from d Some have "distinct (map version ?cs)"
    by (simp add: listed_versions_def distinct_candidate_versions)
  then have "distinct (map version (sort_key version ?cs))"
    by (simp add: map_sort_key)
  moreover have "sorted (map version (sort_key version ?cs))"
    by (simp add: map_sort_key)
  ultimately have "sorted_wrt (<) (map version (sort_key version ?cs))"
    by (simp add: strict_sorted_iff)
  moreover have "m \<le> version c
          \<and> os_path_combine sys (root_path c) core_clr_dll = Some (dll_path c)
          \<and> os_file_exists sys (dll_path c)" if "c \<in> set (sort_key version ?cs)" for c
  proof -
    from that obtain p where "candidate_of sys m p = Some c"
      by (auto simp: in_set_map_filter)
    from candidate_ofD [OF this] show ?thesis
      by simp
  qed
  ultimately show ?thesis
    unfolding out by blast
qed

theorem get_core_directories_from_path_sorted_witness:
  "listed_versions example_system installed_runtimes = [(2, 1, 5), (1, 9, 0), (2, 0, 0)]
   \<and> distinct (listed_versions example_system installed_runtimes)
   \<and> map version (fst (get_core_directories_from_path example_system installed_runtimes
                          (2, 0, 0)))
       = [(2, 0, 0), (2, 1, 5)]
   \<and> sorted_wrt (<)
        (map version (fst (get_core_directories_from_path example_system installed_runtimes
                             (2, 0, 0))))"
proof -
  have v: "listed_versions example_system installed_runtimes
             = [(2, 1, 5), (1, 9, 0), (2, 0, 0)]"
    by (simp add: listed_versions_def example_system_def installed_runtimes_def
          example_versions_def)
  then have d: "distinct (listed_versions example_system installed_runtimes)"
    by simp
  have e: "map version (fst (get_core_directories_from_path example_system installed_runtimes
                          (2, 0, 0))) = [(2, 0, 0), (2, 1, 5)]"
    by code_simp
  from get_core_directories_from_path_sorted [OF d, of "(2, 0, 0)"] v d e
  show ?thesis
    by simp
qed

lemma scan_core_clr_path_listing:
  "scan_core_clr_path (sys\<lparr>os_list_directories := l\<rparr>) m p = scan_core_clr_path sys m p"
  by (simp add: scan_core_clr_path_def split: option.splits bool.splits)

text \<open>
  C7.  A directory whose name does not parse as a version is passed over and the scan
  goes on: the candidates are those of the listing without that directory, and the
  directory's path is among the lines written to the error stream.
\<close>

theorem get_core_directories_from_path_skips_unparsable:
  assumes l: "os_list_directories sys core_clr_root_path = Some (before @ bad # after)"
    and n: "pal_fs_get_directory_name (directory_separator sys) (Some bad) = Some name"
    and p: "semver_parse sys name = None"
  shows "fst (get_core_directories_from_path sys core_clr_root_path m)
           = fst (get_core_directories_from_path
                   (sys\<lparr>os_list_directories :=
                      (os_list_directories sys)(core_clr_root_path := Some (before @ after))\<rparr>)
                   core_clr_root_path m)
         \<and> bad \<in> set (snd (get_core_directories_from_path sys core_clr_root_path m))"
proof -
  from n p have s: "scan_core_clr_path sys m bad = Parse_Failed"
    by (simp add: scan_core_clr_path_def del: pal_fs_get_directory_name.simps)
  then have c: "candidate_of sys m bad = None"
    by (simp add: candidate_of_def)
  have mf: "List.map_filter g (xs @ ys) = List.map_filter g xs @ List.map_filter g ys"
    for g :: "string \<Rightarrow> 'a core_clr_directory option" and xs ys
    by (simp add: List.map_filter_def)
  have cl: "candidate_of (sys\<lparr>os_list_directories := l\<rparr>) m = candidate_of sys m" for l
    by (rule ext) (simp add: candidate_of_def scan_core_clr_path_listing)
  have "List.map_filter (candidate_of sys m) (before @ bad # after)
          = List.map_filter (candidate_of sys m) (before @ after)"
    using c by (simp add: mf)
  then show ?thesis
    using l s
    by (simp add: get_core_directories_from_path_def scan_core_clr_paths_eq cl)
qed

theorem get_core_directories_from_path_skips_unparsable_witness:
  "os_list_directories example_system installed_runtimes
     = Some ([windows_path [installed_runtimes, ''2.1.5'']]
             @ windows_path [installed_runtimes, ''preview'']
             # [windows_path [installed_runtimes, ''1.9.0''],
                windows_path [installed_runtimes, ''2.0.0'']])
   \<and> pal_fs_get_directory_name (directory_separator example_system)
         (Some (windows_path [installed_runtimes, ''preview''])) = Some ''preview''
   \<and> semver_parse example_system ''preview'' = None
   \<and> fst (get_core_directories_from_path example_system installed_runtimes (1, 0, 0))
       = fst (get_core_directories_from_path
               (example_system\<lparr>os_list_directories :=
                  (os_list_directories example_system)(installed_runtimes :=
                     Some ([windows_path [installed_runtimes, ''2.1.5'']]
                           @ [windows_path [installed_runtimes, ''1.9.0''],
                              windows_path [installed_runtimes, ''2.0.0'']]))\<rparr>)
               installed_runtimes (1, 0, 0))
   \<and> snd (get_core_directories_from_path example_system installed_runtimes (1, 0, 0))
       = [windows_path [installed_runtimes, ''preview'']]"
proof -
  have l: "os_list_directories example_system installed_runtimes
     = Some ([windows_path [installed_runtimes, ''2.1.5'']]
             @ windows_path [installed_runtimes, ''preview'']
             # [windows_path [installed_runtimes, ''1.9.0''],
                windows_path [installed_runtimes, ''2.0.0'']])"
    by (simp add: example_system_def)
  have n: "pal_fs_get_directory_name (directory_separator example_system)
         (Some (windows_path [installed_runtimes, ''preview''])) = Some ''preview''"
    by (simp add: example_system_def installed_runtimes_def)
  have p: "semver_parse example_system ''preview'' = None"
    by (simp add: example_system_def example_versions_def)
  have s: "snd (get_core_directories_from_path example_system installed_runtimes (1, 0, 0))
       = [windows_path [installed_runtimes, ''preview'']]"
    by code_simp
  from get_core_directories_from_path_skips_unparsable [OF l n p, of "(1, 0, 0)"] l n p s
  show ?thesis
    by simp
qed

section \<open>Properties of the discovery\<close>

lemma try_core_clr_directories_eq:
  "try_core_clr_directories sys ds =
     (case dropWhile (cannot_load sys) ds of
        [] \<Rightarrow> None
      | d # rest \<Rightarrow> try_load_core_clr_directory sys (root_path d) (version d),
      map root_path (takeWhile (cannot_load sys) ds)
        @ map root_path (take 1 (dropWhile (cannot_load sys) ds)))"
proof (induction ds)
  case Nil
  then show ?case by simp
next
  case (Cons d ds)
  then show ?case
    by (cases "try_load_core_clr_directory sys (root_path d) (version d)")
       (simp_all add: cannot_load_def)
qed

text \<open>
  C8.  Discovery first hands the executable's own directory to the loader, whatever the
  minimum version is, and returns that instance without a further call when it loads.
  Only otherwise, with the installed-runtimes root expanded, the candidates of the locator
  for the minimum version, which are ascending by version, are handed to the loader in
  that order up to and including the first that loads; its instance is the result, and
  there is none when no candidate loads.
\<close>

theorem try_load_core_clr_discovery:
  assumes d: "os_directory_name_full_path sys executable_path = Some executable_directory_path"
  shows "(\<forall>inst. try_load_core_clr_directory sys executable_directory_path (semver_default sys)
                    = Some inst \<longrightarrow>
            try_load_core_clr sys executable_path arguments m
              = Some (Some inst, [executable_directory_path]))
    \<and> (\<forall>root. try_load_core_clr_directory sys executable_directory_path (semver_default sys)
                   = None \<longrightarrow>
          pal_env_expand_str PLATFORM_WINDOWS (os_environment sys)
              (Some core_clr_program_files_directory_path) = Some (Some root) \<longrightarrow>
          (let candidates = fst (get_core_directories_from_path sys root m) in
             sorted (map version candidates)
             \<and> try_load_core_clr sys executable_path arguments m
                 = Some (case dropWhile (cannot_load sys) candidates of
                           [] \<Rightarrow> None
                         | c # rest \<Rightarrow>
                             try_load_core_clr_directory sys (root_path c) (version c),
                         executable_directory_path
                           # map root_path (takeWhile (cannot_load sys) candidates)
                           @ map root_path (take 1 (dropWhile (cannot_load sys) candidates)))))"
proof (intro conjI allI impI)
  fix inst
  assume "try_load_core_clr_directory sys executable_directory_path (semver_default sys)
            = Some inst"
  with d show "try_load_core_clr sys executable_path arguments m
                 = Some (Some inst, [executable_directory_path])"
    by (simp add: try_load_core_clr_def)
next
  fix root
  assume n: "try_load_core_clr_directory sys executable_directory_path (semver_default sys)
               = None"
    and e: "pal_env_expand_str PLATFORM_WINDOWS (os_environment sys)
              (Some core_clr_program_files_directory_path) = Some (Some root)"
  have "sorted (map version (fst (get_core_directories_from_path sys root m)))"
    by (cases "os_list_directories sys root")
       (simp_all add: get_core_directories_from_path_def split: prod.splits)
  moreover have "try_load_core_clr sys executable_path arguments m
       = Some (case try_core_clr_directories sys
                       (fst (get_core_directories_from_path sys root m)) of
                 (i, tried) \<Rightarrow> (i, executable_directory_path # tried))"
    using d n e
    by (simp add: try_load_core_clr_def split: prod.splits del: pal_env_expand_str.simps)
  ultimately show "let candidates = fst (get_core_directories_from_path sys root m) in
             sorted (map version candidates)
             \<and> try_load_core_clr sys executable_path arguments m
                 = Some (case dropWhile (cannot_load sys) candidates of
                           [] \<Rightarrow> None
                         | c # rest \<Rightarrow>
                             try_load_core_clr_directory sys (root_path c) (version c),
                         executable_directory_path
                           # map root_path (takeWhile (cannot_load sys) candidates)
                           @ map root_path (take 1 (dropWhile (cannot_load sys) candidates)))"
    by (simp add: try_core_clr_directories_eq Let_def)
qed

theorem try_load_core_clr_discovery_witness:
  "try_load_core_clr self_contained_system foo_exe [] (2, 0, 0)
     = Some (Some \<lparr>instance_ptr = 7,
                   directory =
                     \<lparr>root_path = windows_path [''C:'', ''apps'', ''foo''],
                      dll_path = windows_path [''C:'', ''apps'', ''foo'', ''coreclr.dll''],
                      version = (0, 0, 0)\<rparr>\<rparr>,
             [windows_path [''C:'', ''apps'', ''foo'']])
   \<and> try_load_core_clr example_system foo_exe [] (2, 0, 0)
     = Some (Some runtime_2_0_0,
             [windows_path [''C:'', ''apps'', ''foo''],
              windows_path [installed_runtimes, ''2.0.0'']])"
proof
  let ?dir = "windows_path [''C:'', ''apps'', ''foo'']"
  have d1: "os_directory_name_full_path self_contained_system foo_exe = Some ?dir"
    by (simp add: self_contained_system_def example_system_def foo_exe_def)
  have l1: "try_load_core_clr_directory self_contained_system ?dir
              (semver_default self_contained_system)
            = Some \<lparr>instance_ptr = 7,
                   directory =
                     \<lparr>root_path = ?dir,
                      dll_path = windows_path [''C:'', ''apps'', ''foo'', ''coreclr.dll''],
                      version = (0, 0, 0)\<rparr>\<rparr>"
    by code_simp
  from try_load_core_clr_discovery [OF d1, of "[]" "(2, 0, 0)", THEN conjunct1, rule_format, OF l1]
  show "try_load_core_clr self_contained_system foo_exe [] (2, 0, 0)
     = Some (Some \<lparr>instance_ptr = 7,
                   directory =
                     \<lparr>root_path = ?dir,
                      dll_path = windows_path [''C:'', ''apps'', ''foo'', ''coreclr.dll''],
                      version = (0, 0, 0)\<rparr>\<rparr>,
             [?dir])" .
  have d2: "os_directory_name_full_path example_system foo_exe = Some ?dir"
    by (simp add: example_system_def foo_exe_def)
  have l2: "try_load_core_clr_directory example_system ?dir (semver_default example_system)
              = None"
    by code_simp
  have e2: "pal_env_expand_str PLATFORM_WINDOWS (os_environment example_system)
              (Some core_clr_program_files_directory_path) = Some (Some installed_runtimes)"
    by code_simp
  let ?c200 = "\<lparr>root_path = windows_path [installed_runtimes, ''2.0.0''],
                dll_path = windows_path [installed_runtimes, ''2.0.0'', ''coreclr.dll''],
                version = (2 :: nat, 0 :: nat, 0 :: nat)\<rparr>"
  let ?c215 = "\<lparr>root_path = windows_path [installed_runtimes, ''2.1.5''],
                dll_path = windows_path [installed_runtimes, ''2.1.5'', ''coreclr.dll''],
                version = (2 :: nat, 1 :: nat, 5 :: nat)\<rparr>"
  have c: "fst (get_core_directories_from_path example_system installed_runtimes (2, 0, 0))
             = [?c200, ?c215]"
    by code_simp
  have t: "try_load_core_clr_directory example_system (root_path ?c200) (version ?c200)
             = Some runtime_2_0_0"
    by code_simp
  then have n: "\<not> cannot_load example_system ?c200"
    by (simp add: cannot_load_def)
  from try_load_core_clr_discovery [OF d2, of "[]" "(2, 0, 0)", THEN conjunct2, rule_format, OF l2 e2]
  have "try_load_core_clr example_system foo_exe [] (2, 0, 0)
          = Some (case dropWhile (cannot_load example_system) [?c200, ?c215] of
                    [] \<Rightarrow> None
                  | c # rest \<Rightarrow>
                      try_load_core_clr_directory example_system (root_path c) (version c),
                  ?dir # map root_path (takeWhile (cannot_load example_system) [?c200, ?c215])
                    @ map root_path
                        (take 1 (dropWhile (cannot_load example_system) [?c200, ?c215])))"
    unfolding c Let_def by (rule conjunct2)
  with n t show "try_load_core_clr example_system foo_exe [] (2, 0, 0)
     = Some (Some runtime_2_0_0, [?dir, windows_path [installed_runtimes, ''2.0.0'']])"
    by simp
qed

section \<open>Properties of the bootstrap sequence\<close>

text \<open>A missing target, and a run in which no runtime loads, end in \<open>- 1\<close>.\<close>

lemma run_target_missing:
  "\<not> os_file_exists sys executable_path \<Longrightarrow>
     run sys host F executable_path arguments m = Some (- 1)"
  by (simp add: run_def)

lemma run_no_runtime:
  assumes "os_file_exists sys executable_path"
    and "os_directory_name_full_path sys executable_path = Some working_directory"
    and "try_load_core_clr sys executable_path arguments m = Some (None, tried)"
  shows "run sys host F executable_path arguments m = Some (- 1)"
  using assms by (simp add: run_def)

text \<open>When every stage succeeds, the result is the exit code that the target stored.\<close>

lemma run_success:
  assumes "os_file_exists sys executable_path"
    and "os_directory_name_full_path sys executable_path = Some working_directory"
    and "try_load_core_clr sys executable_path arguments m = Some (Some inst, tried)"
    and "get_clr_runtime_host_succeeds host (instance_ptr inst)"
    and "\<not> FAILED (SetStartupFlags host (create_clr_startup_flags F (os_environment sys)))"
    and "\<not> FAILED (Start host)"
    and "build_trusted_platform_assemblies_str sys executable_path (Some inst) = tpa"
    and "tpa \<noteq> []"
    and "create_clr_appdomain host executable_path (Some working_directory) tpa (Some inst)
           = Some app_domain_id"
    and "ExecuteAssembly host app_domain_id executable_path (int (length arguments))
           (append_with_blanks arguments) = (hr, exit_code)"
    and "\<not> FAILED hr"
    and "\<not> FAILED (UnloadAppDomain host app_domain_id)"
    and "\<not> FAILED (Stop host)"
  shows "run sys host F executable_path arguments m = Some (sint exit_code)"
  using assms
  by (simp add: run_def to_clr_arguments_def Let_def
        del: build_trusted_platform_assemblies_str.simps)

text \<open>
  C2.  The claim is that every stage failure before the \<^verbatim>\<open>ExecuteAssembly\<close> call gives
  a fixed negative code.  When the target exists, a runtime has been loaded and its host
  interface obtained, and \<^verbatim>\<open>SetStartupFlags\<close> or \<^verbatim>\<open>Start\<close> fails, \<^verbatim>\<open>run\<close> returns 0
  (\<^verbatim>\<open>return false\<close>), the exit code of a target that succeeded.
\<close>

theorem run_host_failure_returns_zero:
  assumes "os_file_exists sys executable_path"
    and "os_directory_name_full_path sys executable_path = Some working_directory"
    and "try_load_core_clr sys executable_path arguments m = Some (Some inst, tried)"
    and "get_clr_runtime_host_succeeds host (instance_ptr inst)"
    and "FAILED (SetStartupFlags host (create_clr_startup_flags F (os_environment sys)))
         \<or> FAILED (Start host)"
  shows "run sys host F executable_path arguments m = Some 0"
  using assms by (auto simp: run_def)

theorem run_host_failure_returns_zero_witness:
  "os_file_exists example_system foo_exe
   \<and> FAILED (SetStartupFlags (example_host\<lparr>SetStartupFlags := (\<lambda>flags. 0x80004005)\<rparr>)
              (create_clr_startup_flags mscoree_startup_flags (os_environment example_system)))
   \<and> run example_system (example_host\<lparr>SetStartupFlags := (\<lambda>flags. 0x80004005)\<rparr>)
        mscoree_startup_flags foo_exe [] (2, 0, 0) = Some 0
   \<and> run example_system example_host mscoree_startup_flags foo_exe [] (2, 0, 0) = Some 42"
proof -
  let ?host = "example_host\<lparr>SetStartupFlags := (\<lambda>flags. 0x80004005)\<rparr>"
  have f: "os_file_exists example_system foo_exe"
    by (simp add: example_system_def foo_exe_def)
  have d: "os_directory_name_full_path example_system foo_exe
             = Some (windows_path [''C:'', ''apps'', ''foo''])"
    by (simp add: example_system_def foo_exe_def)
  have l: "try_load_core_clr example_system foo_exe [] (2, 0, 0)
     = Some (Some runtime_2_0_0,
             [windows_path [''C:'', ''apps'', ''foo''],
              windows_path [installed_runtimes, ''2.0.0'']])"
    by code_simp
  have h: "get_clr_runtime_host_succeeds ?host (instance_ptr runtime_2_0_0)"
    by (simp add: example_host_def)
  have s: "FAILED (SetStartupFlags ?host
              (create_clr_startup_flags mscoree_startup_flags (os_environment example_system)))"
    by (simp add: FAILED_def)
  have ok: "run example_system example_host mscoree_startup_flags foo_exe [] (2, 0, 0) = Some 42"
    by code_simp
  from run_host_failure_returns_zero [OF f d l h disjI1, OF s] f s ok
  show ?thesis
    by simp
qed

end
